theory Spec2Isabelle
  imports Complex_Main "HOL-Library.Word"
begin

unbundle bit_operations_syntax

section \<open>JavaScript numbers and arrays\<close>

text \<open>
  JavaScript numbers are modelled by \<open>int\<close> where the program only ever holds integers
  (generator slots, MIDI keys, velocities, counts) and by \<open>real\<close> where it holds times,
  sample positions and pitch data.  Rounding of doubles, \<open>NaN\<close> and the infinities are
  not represented, with one exception: \<open>releaseStartTime\<close>, whose initial value is
  \<open>Infinity\<close>, is a \<open>real option\<close> with \<open>None\<close> for \<open>Infinity\<close>.
\<close>

definition toInt16 :: "int \<Rightarrow> int" where
  \<comment> \<open>the value an \<open>Int16Array\<close> slot holds after an integer is stored in it\<close>
  "toInt16 x = (x + 32768) mod 65536 - 32768"

definition toInt32 :: "int \<Rightarrow> int" where
  "toInt32 x = (x + 2147483648) mod 4294967296 - 2147483648"

definition jsTrunc :: "real \<Rightarrow> int" where
  \<comment> \<open>rounding towards zero\<close>
  "jsTrunc x = (if x < 0 then \<lceil>x\<rceil> else \<lfloor>x\<rfloor>)"

definition jsRem :: "real \<Rightarrow> real \<Rightarrow> real" where
  \<comment> \<open>the \<open>%\<close> operator on finite numbers with a divisor other than 0: the remainder has
      the sign of the dividend (\<open>a % 0\<close> is \<open>NaN\<close>, which is not represented)\<close>
  "jsRem a b = a - b * of_int (jsTrunc (a / b))"

fun indexOf :: "'a list \<Rightarrow> 'a \<Rightarrow> int" where
  "indexOf [] x = - 1"
| "indexOf (y # ys) x =
     (if y = x then 0 else (let i = indexOf ys x in if i < 0 then - 1 else i + 1))"

definition splice1 :: "int \<Rightarrow> 'a list \<Rightarrow> 'a list" where
  \<comment> \<open>the array left by \<open>xs.splice(start, 1)\<close>: a negative start counts from the end\<close>
  "splice1 start xs =
     (let len = int (length xs);
          s = (if start < 0 then max (len + start) 0 else min start len)
      in take (nat s) xs @ drop (nat s + 1) xs)"

section \<open>Generator and controller indices\<close>

text \<open>
  The enumerations \<open>generatorTypes\<close>, \<open>midiControllers\<close> and \<open>modulatorSources\<close> and the
  constant \<open>NON_CC_INDEX_OFFSET\<close> are declared in files that are not among the sources
  (\<open>generators.js\<close>, \<open>midi_message.js\<close>, \<open>modulators.js\<close>, \<open>worklet_system.js\<close>).  The
  generator indices below are the SoundFont 2 generator enumerators, the controller
  numbers are the MIDI ones, and the non-CC tail follows the table size 147.
  \<open>generatorTypes.velocity\<close> is \<open>velocityGen\<close> and \<open>midiControllers.pan\<close> is \<open>panController\<close>
  here, apart from the voice's field \<open>velocity\<close> and the generator \<open>pan\<close>.
\<close>

definition startAddrsOffset :: nat where "startAddrsOffset = 0"
definition endAddrOffset :: nat where "endAddrOffset = 1"
definition startloopAddrsOffset :: nat where "startloopAddrsOffset = 2"
definition endloopAddrsOffset :: nat where "endloopAddrsOffset = 3"
definition startAddrsCoarseOffset :: nat where "startAddrsCoarseOffset = 4"
definition modLfoToPitch :: nat where "modLfoToPitch = 5"
definition vibLfoToPitch :: nat where "vibLfoToPitch = 6"
definition modEnvToPitch :: nat where "modEnvToPitch = 7"
definition initialFilterFc :: nat where "initialFilterFc = 8"
definition modLfoToFilterFc :: nat where "modLfoToFilterFc = 10"
definition modEnvToFilterFc :: nat where "modEnvToFilterFc = 11"
definition endAddrsCoarseOffset :: nat where "endAddrsCoarseOffset = 12"
definition modLfoToVolume :: nat where "modLfoToVolume = 13"
definition chorusEffectsSend :: nat where "chorusEffectsSend = 15"
definition reverbEffectsSend :: nat where "reverbEffectsSend = 16"
definition pan :: nat where "pan = 17"
definition delayModLFO :: nat where "delayModLFO = 21"
definition freqModLFO :: nat where "freqModLFO = 22"
definition delayVibLFO :: nat where "delayVibLFO = 23"
definition freqVibLFO :: nat where "freqVibLFO = 24"
definition releaseVolEnv :: nat where "releaseVolEnv = 38"
definition startloopAddrsCoarseOffset :: nat where "startloopAddrsCoarseOffset = 45"
definition keyNum :: nat where "keyNum = 46"
definition velocityGen :: nat where "velocityGen = 47"
definition initialAttenuation :: nat where "initialAttenuation = 48"
definition endloopAddrsCoarseOffset :: nat where "endloopAddrsCoarseOffset = 50"
definition coarseTune :: nat where "coarseTune = 51"
definition fineTune :: nat where "fineTune = 52"
definition sampleModes :: nat where "sampleModes = 54"
definition scaleTuning :: nat where "scaleTuning = 56"
definition exclusiveClass :: nat where "exclusiveClass = 57"
definition overridingRootKey :: nat where "overridingRootKey = 58"

definition mainVolume :: nat where "mainVolume = 7"
definition panController :: nat where "panController = 10"
definition expressionController :: nat where "expressionController = 11"
definition sustainPedal :: nat where "sustainPedal = 64"
definition releaseTime :: nat where "releaseTime = 72"
definition brightness :: nat where "brightness = 74"

definition NON_CC_INDEX_OFFSET :: nat where "NON_CC_INDEX_OFFSET = 128"
definition channelPressure :: nat where "channelPressure = 13"
definition pitchWheel :: nat where "pitchWheel = 14"
definition pitchWheelRange :: nat where "pitchWheelRange = 16"
definition channelTuning :: nat where "channelTuning = 17"
definition channelTranspose :: nat where "channelTranspose = 18"

definition CONTROLLER_TABLE_SIZE :: nat where "CONTROLLER_TABLE_SIZE = 147"
definition MIN_NOTE_LENGTH :: real where "MIN_NOTE_LENGTH = 7 / 100"

section \<open>Data model (\<open>worklet_voice.js\<close>, \<open>worklet_processor.js\<close>)\<close>

record WorkletSample =
  sampleID :: nat
  playbackStep :: real
  cursor :: real
  rootKey :: int
  loopStart :: real
  loopEnd :: real
  sampleEnd :: real \<comment> \<open>the field \<open>end\<close>\<close>
  loopingMode :: int

record WorkletLowpassFilter =
  lp_a0 :: real
  lp_a1 :: real
  lp_a2 :: real
  lp_a3 :: real
  lp_a4 :: real
  lp_x1 :: real
  lp_x2 :: real
  lp_y1 :: real
  lp_y2 :: real
  reasonanceCb :: real
  reasonanceGain :: real
  cutoffCents :: real
  cutoffHz :: real

record Modulator =
  modSource :: int
  modAmountSource :: int
  modDestination :: int
  modAmount :: int
  modTransform :: int

record WorkletVoice =
  sample :: WorkletSample
  voiceFilter :: WorkletLowpassFilter \<comment> \<open>the field \<open>filter\<close>\<close>
  generators :: "int list"
  modulators :: "Modulator list"
  modulatedGenerators :: "int list"
  finished :: bool
  isInRelease :: bool
  channelNumber :: nat
  velocity :: int
  midiNote :: int
  targetKey :: int
  currentAttenuationDb :: real
  volumeEnvelopeState :: nat
  currentModEnvValue :: real
  startTime :: real
  releaseStartTime :: "real option"
  releaseStartModEnv :: real
  currentTuningCents :: int
  currentTuningCalculated :: real

section \<open>The voice builder (\<open>worklet_voice.js\<close>)\<close>

record Sample =
  isCompressed :: bool
  isSampleLoaded :: bool
  samplePitch :: int
  samplePitchCorrection :: int
  sampleLoopStartIndex :: int
  sampleLoopEndIndex :: int
  sampleRate :: real
  sampleData :: "real list"

text \<open>
  One element of \<open>preset.getSamplesAndGenerators(midiNote, velocity)\<close>.  The sample is an
  object shared between zones and mutated when its audio data is loaded, so the zone
  holds a reference into the table of sample objects.
\<close>

record SampleAndGenerators =
  zoneSampleID :: nat \<comment> \<open>the field \<open>sampleID\<close>\<close>
  zoneSample :: nat \<comment> \<open>the field \<open>sample\<close>, a reference\<close>
  presetGenerators :: "int list"
  instrumentGenerators :: "int list"
  zoneModulators :: "Modulator list" \<comment> \<open>the field \<open>modulators\<close>\<close>

text \<open>
  The collaborators of the builder that are not among the sources: the audio context,
  \<open>addAndClampGenerator\<close> of \<open>generators.js\<close>, and the two loading methods of a sample.
  \<open>getAudioDataSync\<close> is given by the sample object as the call leaves it and the data it
  returns, \<open>getAudioData\<close> by the sample object as the call leaves it; the promise it
  returns is settled later, outside the builder.
\<close>

record BuilderContext =
  contextCurrentTime :: real
  contextSampleRate :: real
  addAndClampGenerator :: "nat \<Rightarrow> int list \<Rightarrow> int list \<Rightarrow> int"
  getAudioDataSync :: "Sample \<Rightarrow> Sample \<times> real list"
  getAudioData :: "Sample \<Rightarrow> Sample"

record SampleDump =
  dumpChannel :: nat
  dumpSampleID :: nat
  dumpSampleData :: "real list"

record BuilderState =
  globalDumpedSamplesList :: "nat set"
  sampleObjects :: "nat \<Rightarrow> Sample"
  cachedVoices :: "int \<times> int \<Rightarrow> WorkletVoice list option"
  postedDumps :: "SampleDump list" \<comment> \<open>messages posted on the port, oldest first\<close>
  pendingDumps :: "(nat \<times> nat \<times> nat) list"
    \<comment> \<open>(channel, sample reference, id) of every decoding still in flight\<close>

definition clearSamplesList :: "BuilderState \<Rightarrow> BuilderState" where
  "clearSamplesList st = st\<lparr>globalDumpedSamplesList := {}\<rparr>"

definition dumpSample :: "BuilderContext \<Rightarrow> nat \<Rightarrow> nat \<Rightarrow> nat \<Rightarrow> BuilderState \<Rightarrow> BuilderState" where
  "dumpSample ctx channel sref ident st =
     (let st1 = st\<lparr>globalDumpedSamplesList := insert ident (globalDumpedSamplesList st)\<rparr> in
      if \<not> isCompressed (sampleObjects st1 sref) then
        (case getAudioDataSync ctx (sampleObjects st1 sref) of (s', audioData) \<Rightarrow>
         st1\<lparr>sampleObjects := (sampleObjects st1)(sref := s'),
             postedDumps := postedDumps st1 @
               [\<lparr>dumpChannel = channel, dumpSampleID = ident, dumpSampleData = audioData\<rparr>]\<rparr>)
      else
        st1\<lparr>sampleObjects := (sampleObjects st1)(sref := getAudioData ctx (sampleObjects st1 sref)),
            pendingDumps := pendingDumps st1 @ [(channel, sref, ident)]\<rparr>)"

definition combineGenerators :: "BuilderContext \<Rightarrow> SampleAndGenerators \<Rightarrow> int list" where
  \<comment> \<open>the loop filling \<open>new Int16Array(60)\<close>, then the EMU attenuation correction
      \<open>Math.floor(g * 0.4)\<close>, which for a 16-bit integer \<open>g\<close> is the floor of \<open>4g/10\<close>\<close>
  "combineGenerators ctx z =
     (let gens = map (\<lambda>i. toInt16 (addAndClampGenerator ctx i (presetGenerators z)
                                     (instrumentGenerators z))) [0..<60]
      in gens[initialAttenuation := toInt16 ((gens ! initialAttenuation * 4) div 10)])"

definition initialFilter :: WorkletLowpassFilter where
  "initialFilter = \<lparr>lp_a0 = 0, lp_a1 = 0, lp_a2 = 0, lp_a3 = 0, lp_a4 = 0,
     lp_x1 = 0, lp_x2 = 0, lp_y1 = 0, lp_y2 = 0, reasonanceCb = 0, reasonanceGain = 1,
     cutoffCents = 13500, cutoffHz = 20000\<rparr>"

text \<open>
  The callback of \<open>map\<close>.  It reads and assigns the enclosing function's \<open>velocity\<close> and
  \<open>canCache\<close>, so both are threaded through together with the builder state.
\<close>

definition buildVoice ::
  "BuilderContext \<Rightarrow> nat \<Rightarrow> int \<Rightarrow> SampleAndGenerators \<Rightarrow> int \<times> bool \<times> BuilderState
     \<Rightarrow> WorkletVoice \<times> int \<times> bool \<times> BuilderState" where
  "buildVoice ctx channel note z acc =
     (case acc of (vel, canCache, st) \<Rightarrow>
      let (canCache1, st1) =
            (if zoneSampleID z \<notin> globalDumpedSamplesList st then
               (let st' = dumpSample ctx channel (zoneSample z) (zoneSampleID z) st in
                (if \<not> isSampleLoaded (sampleObjects st' (zoneSample z)) then False else canCache,
                 st'))
             else (canCache, st));
          smp = sampleObjects st1 (zoneSample z);
          gens = combineGenerators ctx z;
          rootKey0 = (if gens ! overridingRootKey > - 1 then gens ! overridingRootKey
                      else samplePitch smp);
          targetKey0 = (if gens ! keyNum > - 1 then gens ! keyNum else note);
          loopStart0 = real_of_int (sampleLoopStartIndex smp) / 2
             + real_of_int (gens ! startloopAddrsOffset + gens ! startloopAddrsCoarseOffset * 32768);
          loopEnd0 = real_of_int (sampleLoopEndIndex smp) / 2
             + real_of_int (gens ! endloopAddrsOffset + gens ! endloopAddrsCoarseOffset * 32768);
          loopingMode0 = (if loopEnd0 - loopStart0 < 1 then 0 else gens ! sampleModes);
          workletSample = \<lparr>
            sampleID = zoneSampleID z,
            playbackStep = (sampleRate smp / contextSampleRate ctx)
               * (2 powr (real_of_int (samplePitchCorrection smp) / 1200)),
            cursor = real_of_int (gens ! startAddrsOffset + gens ! startAddrsCoarseOffset * 32768),
            rootKey = rootKey0,
            loopStart = loopStart0,
            loopEnd = loopEnd0,
            sampleEnd = real_of_int (int (length (sampleData smp)) - 1
               + (gens ! endAddrOffset + gens ! endAddrsCoarseOffset * 32768)),
            loopingMode = loopingMode0\<rparr>;
          vel1 = (if gens ! velocityGen > - 1 then gens ! velocityGen else vel)
      in (\<lparr>sample = workletSample,
           voiceFilter = initialFilter,
           generators = gens,
           modulators = zoneModulators z,
           modulatedGenerators = replicate 60 0,
           finished = False,
           isInRelease = False,
           channelNumber = channel,
           velocity = vel1,
           midiNote = note,
           targetKey = targetKey0,
           currentAttenuationDb = 100,
           volumeEnvelopeState = 0,
           currentModEnvValue = 0,
           startTime = contextCurrentTime ctx,
           releaseStartTime = None,
           releaseStartModEnv = 1,
           currentTuningCents = 0,
           currentTuningCalculated = 1\<rparr>,
          vel1, canCache1, st1))"

fun buildVoices ::
  "BuilderContext \<Rightarrow> nat \<Rightarrow> int \<Rightarrow> SampleAndGenerators list \<Rightarrow> int \<times> bool \<times> BuilderState
     \<Rightarrow> WorkletVoice list \<times> int \<times> bool \<times> BuilderState" where
  "buildVoices ctx channel note [] acc = ([], acc)"
| "buildVoices ctx channel note (z # zs) acc =
     (case buildVoice ctx channel note z acc of (v, acc1) \<Rightarrow>
      case buildVoices ctx channel note zs acc1 of (vs, acc2) \<Rightarrow> (v # vs, acc2))"

definition getWorkletVoices ::
  "BuilderContext \<Rightarrow> nat \<Rightarrow> int \<Rightarrow> int \<Rightarrow> (int \<Rightarrow> int \<Rightarrow> SampleAndGenerators list)
     \<Rightarrow> BuilderState \<Rightarrow> WorkletVoice list \<times> BuilderState" where
  "getWorkletVoices ctx channel note vel preset st =
     (case cachedVoices st (note, vel) of
        Some cached \<Rightarrow>
          (let workletVoices = map (\<lambda>v. v\<lparr>startTime := contextCurrentTime ctx\<rparr>) cached
           in (workletVoices, st\<lparr>cachedVoices := (cachedVoices st)((note, vel) \<mapsto> workletVoices)\<rparr>))
      | None \<Rightarrow>
          (case buildVoices ctx channel note (preset note vel) (vel, True, st) of
             (workletVoices, vel', canCache, st') \<Rightarrow>
               (workletVoices,
                if canCache
                then st'\<lparr>cachedVoices := (cachedVoices st')((note, vel') \<mapsto> workletVoices)\<rparr>
                else st')))"

section \<open>The processor (\<open>worklet_processor.js\<close>)\<close>

record ChannelVibrato =
  vibDelay :: real \<comment> \<open>the field \<open>delay\<close>\<close>
  vibDepth :: real \<comment> \<open>the field \<open>depth\<close>\<close>
  vibRate :: real \<comment> \<open>the field \<open>rate\<close>\<close>

text \<open>
  Voices are objects: a channel's \<open>voices\<close> and \<open>sustainedVoices\<close> arrays may hold the
  same voice, and releasing it through one array is seen through the other.  The arrays
  therefore hold references, and the processor carries the store of voice objects.
\<close>

record WorkletProcessorChannel =
  midiControllers :: "int list"
  holdPedal :: bool
  channelVibrato :: ChannelVibrato
  isMuted :: bool
  voices :: "nat list"
  sustainedVoices :: "nat list"

record WorkletProcessor =
  outputsAmount :: nat
  workletProcessorChannels :: "WorkletProcessorChannel list"
  totalVoicesAmount :: int
  voiceObjects :: "nat \<Rightarrow> WorkletVoice"
  nextVoiceRef :: nat \<comment> \<open>the next unused reference\<close>
  workletDumpedSamplesList :: "nat \<Rightarrow> real list option"
  postedMessages :: "nat list list" \<comment> \<open>the arrays posted on the port, oldest first\<close>

type_synonym AudioBuffers = "real list list"

text \<open>
  The globals of the \<open>AudioWorkletGlobalScope\<close> and the imported functions that are not
  among the sources.  A function that mutates the voice or a buffer returns the new one.
\<close>

record WorkletGlobals =
  currentTime :: real
  globalSampleRate :: real \<comment> \<open>the global \<open>sampleRate\<close>\<close>
  VOICE_CAP :: int
  modulatorResult :: "WorkletVoice \<Rightarrow> int list \<Rightarrow> int list"
  timecentsToSeconds :: "int \<Rightarrow> real"
  absCentsToHz :: "int \<Rightarrow> real"
  getLFOValue :: "real \<Rightarrow> real \<Rightarrow> real \<Rightarrow> real"
  getModEnvValue :: "WorkletVoice \<Rightarrow> real \<Rightarrow> real \<times> WorkletVoice"
  getOscillatorData :: "WorkletVoice \<Rightarrow> real list \<Rightarrow> real list \<Rightarrow> WorkletVoice \<times> real list"
  applyLowpassFilter :: "WorkletVoice \<Rightarrow> real list \<Rightarrow> real \<Rightarrow> WorkletVoice \<times> real list"
  applyVolumeEnvelope ::
    "WorkletVoice \<Rightarrow> real list \<Rightarrow> real \<Rightarrow> real \<Rightarrow> real \<Rightarrow> WorkletVoice \<times> real list"
  panVoice ::
    "real \<Rightarrow> real list \<Rightarrow> AudioBuffers \<Rightarrow> AudioBuffers option \<Rightarrow> int \<Rightarrow> AudioBuffers option \<Rightarrow> int
       \<Rightarrow> AudioBuffers \<times> AudioBuffers option \<times> AudioBuffers option"

definition computeModulators :: "WorkletGlobals \<Rightarrow> WorkletVoice \<Rightarrow> int list \<Rightarrow> WorkletVoice" where
  \<comment> \<open>Modelled from the spec: \<open>worklet_modulator.js\<close> is not among the sources.  The spec
      has \<open>computeModulators(voice, controllers)\<close> rebuild \<open>voice.modulatedGenerators\<close>
      from the voice and the controller table, and nothing else of the voice.\<close>
  "computeModulators g v controllers = v\<lparr>modulatedGenerators := modulatorResult g v controllers\<rparr>"

datatype WorkletMessageData =
    NoteOff int
  | KillNote int
  | NoteOn "WorkletVoice list"
  | SampleDumpData nat "real list"
  | CcReset "nat list"
  | CcChange nat int
  | SetChannelVibrato ChannelVibrato
  | ClearCache
  | StopAll int
  | KillNotes int
  | MuteChannel bool
  | AddNewChannel
  | OtherMessage

record WorkletMessage =
  messageChannel :: nat \<comment> \<open>the field \<open>channelNumber\<close>\<close>
  messageData :: WorkletMessageData \<comment> \<open>\<open>messageType\<close> and \<open>messageData\<close>\<close>

definition resetArray :: "int list" where
  "resetArray = (replicate CONTROLLER_TABLE_SIZE 0)
     [mainVolume := 100 * 128,
      expressionController := 127 * 128,
      panController := 64 * 128,
      releaseTime := 64 * 128,
      brightness := 64 * 128,
      NON_CC_INDEX_OFFSET + pitchWheel := 8192,
      NON_CC_INDEX_OFFSET + pitchWheelRange := 2 * 128,
      NON_CC_INDEX_OFFSET + channelPressure := 127 * 128,
      NON_CC_INDEX_OFFSET + channelTuning := 0]"

definition resetControllersChannel :: "nat list \<Rightarrow> WorkletProcessorChannel \<Rightarrow> WorkletProcessorChannel" where
  \<comment> \<open>the body of \<open>resetControllers\<close> on the addressed channel; a write outside the table
      is ignored, as it is by a typed array\<close>
  "resetControllersChannel excluded ch =
     (let excludedCCvalues = map (\<lambda>ccNum. (ccNum, midiControllers ch ! ccNum)) excluded;
          transpose = midiControllers ch ! (NON_CC_INDEX_OFFSET + channelTranspose);
          restored = foldl (\<lambda>c cc. c[fst cc := snd cc])
                       (resetArray[NON_CC_INDEX_OFFSET + channelTranspose := transpose])
                       excludedCCvalues
      in ch\<lparr>midiControllers := restored,
            channelVibrato := \<lparr>vibDelay = 0, vibDepth = 0, vibRate = 0\<rparr>,
            holdPedal := False\<rparr>)"

definition resetControllers :: "nat \<Rightarrow> nat list \<Rightarrow> WorkletProcessor \<Rightarrow> WorkletProcessor option" where
  "resetControllers channel excluded p =
     (if channel < length (workletProcessorChannels p) then
        Some (p\<lparr>workletProcessorChannels := (workletProcessorChannels p)
                 [channel := resetControllersChannel excluded (workletProcessorChannels p ! channel)]\<rparr>)
      else None)"

definition createWorkletChannel :: "WorkletProcessor \<Rightarrow> WorkletProcessor option" where
  "createWorkletChannel p =
     (let p1 = p\<lparr>workletProcessorChannels := workletProcessorChannels p @
                  [\<lparr>midiControllers = replicate CONTROLLER_TABLE_SIZE 0,
                    holdPedal = False,
                    channelVibrato = \<lparr>vibDelay = 0, vibDepth = 0, vibRate = 0\<rparr>,
                    isMuted = False,
                    voices = [],
                    sustainedVoices = []\<rparr>]\<rparr>
      in resetControllers (length (workletProcessorChannels p1) - 1) [] p1)"

definition updateVoicesAmount :: "WorkletProcessor \<Rightarrow> WorkletProcessor" where
  "updateVoicesAmount p =
     p\<lparr>postedMessages := postedMessages p @
         [map (\<lambda>c. length (voices c)) (workletProcessorChannels p)]\<rparr>"

definition releaseVoice :: "WorkletGlobals \<Rightarrow> WorkletVoice \<Rightarrow> WorkletVoice" where
  "releaseVoice g voice =
     (let v1 = voice\<lparr>releaseStartTime := Some (currentTime g)\<rparr> in
      if currentTime g - startTime v1 < MIN_NOTE_LENGTH
      then v1\<lparr>releaseStartTime := Some (startTime v1 + MIN_NOTE_LENGTH)\<rparr>
      else v1)"

fun forEachVoice ::
  "(WorkletVoice \<Rightarrow> WorkletVoice) \<Rightarrow> nat list \<Rightarrow> (nat \<Rightarrow> WorkletVoice) \<Rightarrow> (nat \<Rightarrow> WorkletVoice)" where
  \<comment> \<open>\<open>array.forEach(v => ...)\<close> with a callback that mutates \<open>v\<close>\<close>
  "forEachVoice f [] h = h"
| "forEachVoice f (r # rs) h = forEachVoice f rs (h(r := f (h r)))"

definition allVoices :: "WorkletProcessorChannel list \<Rightarrow> nat list" where
  \<comment> \<open>\<open>workletProcessorChannels.map(channel => channel.voices).flat()\<close>\<close>
  "allVoices chs = concat (map voices chs)"

fun killVoices ::
  "(nat \<Rightarrow> WorkletVoice) \<Rightarrow> nat list \<Rightarrow> WorkletProcessorChannel list \<times> int
     \<Rightarrow> (WorkletProcessorChannel list \<times> int) option" where
  \<comment> \<open>the \<open>for\<close> loop of \<open>voiceKilling\<close>; a voice whose \<open>channelNumber\<close> names no channel
      makes the loop throw\<close>
  "killVoices h [] st = Some st"
| "killVoices h (r # rs) st =
     (case st of (chs, count) \<Rightarrow>
      let c = channelNumber (h r) in
      if c < length chs then
        killVoices h rs
          (chs[c := (chs ! c)\<lparr>voices := splice1 (indexOf (voices (chs ! c)) r) (voices (chs ! c))\<rparr>],
           count - 1)
      else None)"

definition voiceKilling :: "int \<Rightarrow> WorkletProcessor \<Rightarrow> WorkletProcessor option" where
  "voiceKilling amount p =
     (let voicesOrderedByVelocity =
            sort_key (\<lambda>r. velocity (voiceObjects p r)) (allVoices (workletProcessorChannels p));
          amount1 = (if int (length voicesOrderedByVelocity) < amount
                     then int (length voicesOrderedByVelocity) else amount)
      in case killVoices (voiceObjects p) (take (nat amount1) voicesOrderedByVelocity)
                (workletProcessorChannels p, totalVoicesAmount p) of
           None \<Rightarrow> None
         | Some (chs, count) \<Rightarrow>
             Some (updateVoicesAmount (p\<lparr>workletProcessorChannels := chs, totalVoicesAmount := count\<rparr>)))"

definition noteOffVoice :: "WorkletGlobals \<Rightarrow> int \<Rightarrow> nat \<Rightarrow> WorkletProcessorChannel \<times> (nat \<Rightarrow> WorkletVoice)
     \<Rightarrow> WorkletProcessorChannel \<times> (nat \<Rightarrow> WorkletVoice)" where
  \<comment> \<open>the callback of the \<open>noteOff\<close> case, on the voice with reference \<open>r\<close>\<close>
  "noteOffVoice g note r st =
     (case st of (ch, h) \<Rightarrow>
      if midiNote (h r) \<noteq> note \<or> isInRelease (h r) then (ch, h)
      else if holdPedal ch then (ch\<lparr>sustainedVoices := sustainedVoices ch @ [r]\<rparr>, h)
      else (ch, h(r := releaseVoice g (h r))))"

definition killNoteVoice :: "WorkletGlobals \<Rightarrow> int \<Rightarrow> WorkletVoice \<Rightarrow> WorkletVoice" where
  "killNoteVoice g note v =
     (if midiNote v \<noteq> note then v
      else releaseVoice g (v\<lparr>modulatedGenerators := (modulatedGenerators v)[releaseVolEnv := - 12000]\<rparr>))"

definition exclusiveRelease :: "WorkletGlobals \<Rightarrow> int list \<Rightarrow> int \<Rightarrow> WorkletVoice \<Rightarrow> WorkletVoice" where
  \<comment> \<open>the inner callback of the \<open>noteOn\<close> case\<close>
  "exclusiveRelease g controllers exclusive v =
     (if generators v ! exclusiveClass = exclusive then
        (let v1 = releaseVoice g v;
             v2 = v1\<lparr>generators := (generators v1)[releaseVolEnv := - 7200]\<rparr>
         in computeModulators g v2 controllers)
      else v)"

fun noteOnVoices ::
  "WorkletGlobals \<Rightarrow> int list \<Rightarrow> nat list \<Rightarrow> WorkletVoice list \<Rightarrow> (nat \<Rightarrow> WorkletVoice)
     \<Rightarrow> WorkletVoice list \<times> (nat \<Rightarrow> WorkletVoice)" where
  \<comment> \<open>\<open>data.forEach(voice => ...)\<close>: the incoming voices as they leave the loop, and the
      store of the live ones\<close>
  "noteOnVoices g controllers channelVoices [] h = ([], h)"
| "noteOnVoices g controllers channelVoices (voice # rest) h =
     (let exclusive = generators voice ! exclusiveClass;
          h1 = (if exclusive \<noteq> 0
                then forEachVoice (exclusiveRelease g controllers exclusive) channelVoices h
                else h);
          voice1 = (computeModulators g voice controllers)\<lparr>currentAttenuationDb := 100\<rparr>
      in case noteOnVoices g controllers channelVoices rest h1 of
           (rest1, h2) \<Rightarrow> (voice1 # rest1, h2))"

fun allocVoices :: "WorkletVoice list \<Rightarrow> nat \<Rightarrow> (nat \<Rightarrow> WorkletVoice) \<Rightarrow> (nat \<Rightarrow> WorkletVoice)" where
  \<comment> \<open>the received voices become objects of their own, at consecutive fresh references\<close>
  "allocVoices [] n h = h"
| "allocVoices (v # vs) n h = allocVoices vs (Suc n) (h(n := v))"

definition sampleDumpVoice :: "WorkletGlobals \<Rightarrow> nat \<Rightarrow> real list \<Rightarrow> WorkletVoice \<Rightarrow> WorkletVoice" where
  \<comment> \<open>the callback of the \<open>sampleDump\<close> case\<close>
  "sampleDumpVoice g ident smpData v =
     (if sampleID (sample v) \<noteq> ident then v
      else
        let v1 = v\<lparr>sample := (sample v)\<lparr>sampleEnd :=
                    real_of_int (int (length smpData) - 1 + generators v ! endAddrOffset
                       + generators v ! endAddrsCoarseOffset * 32768)\<rparr>\<rparr>;
            v2 = v1\<lparr>sample := (sample v1)\<lparr>cursor :=
                    (playbackStep (sample v1) * globalSampleRate g)
                      * (currentTime g - startTime v1)\<rparr>\<rparr>
        in if loopingMode (sample v2) = 0 then
             (if cursor (sample v2) \<ge> sampleEnd (sample v2) then v2\<lparr>finished := True\<rparr> else v2)
           else
             (if cursor (sample v2) > loopEnd (sample v2)
              then v2\<lparr>sample := (sample v2)\<lparr>cursor :=
                     jsRem (cursor (sample v2)) (loopEnd (sample v2) - loopStart (sample v2))
                       + loopStart (sample v2) - 1\<rparr>\<rparr>
              else v2))"

definition setChannel :: "nat \<Rightarrow> WorkletProcessorChannel \<Rightarrow> WorkletProcessor \<Rightarrow> WorkletProcessor" where
  "setChannel channel ch p =
     p\<lparr>workletProcessorChannels := (workletProcessorChannels p)[channel := ch]\<rparr>"

definition handleMessage :: "WorkletGlobals \<Rightarrow> WorkletMessage \<Rightarrow> WorkletProcessor \<Rightarrow> WorkletProcessor option" where
  \<comment> \<open>\<open>None\<close>: the call throws, as it does first of all when the message names no channel\<close>
  "handleMessage g message p =
     (let channel = messageChannel message in
      if \<not> channel < length (workletProcessorChannels p) then None
      else
        let ch = workletProcessorChannels p ! channel;
            channelVoices = voices ch
        in case messageData message of
             OtherMessage \<Rightarrow> Some p
           | NoteOff note \<Rightarrow>
               (case fold (noteOffVoice g note) channelVoices (ch, voiceObjects p) of
                  (ch1, h1) \<Rightarrow> Some (setChannel channel ch1 (p\<lparr>voiceObjects := h1\<rparr>)))
           | KillNote note \<Rightarrow>
               Some (p\<lparr>voiceObjects := forEachVoice (killNoteVoice g note) channelVoices (voiceObjects p)\<rparr>)
           | NoteOn newVoices \<Rightarrow>
               (case noteOnVoices g (midiControllers ch) channelVoices newVoices (voiceObjects p) of
                  (newVoices1, h1) \<Rightarrow>
                    let refs = [nextVoiceRef p ..< nextVoiceRef p + length newVoices1];
                        p1 = setChannel channel (ch\<lparr>voices := channelVoices @ refs\<rparr>)
                               (p\<lparr>voiceObjects := allocVoices newVoices1 (nextVoiceRef p) h1,
                                  nextVoiceRef := nextVoiceRef p + length newVoices1,
                                  totalVoicesAmount := totalVoicesAmount p + int (length newVoices1)\<rparr>)
                    in if totalVoicesAmount p1 > VOICE_CAP g
                       then voiceKilling (totalVoicesAmount p1 - VOICE_CAP g) p1
                       else Some (updateVoicesAmount p1))
           | SampleDumpData ident smpData \<Rightarrow>
               Some (p\<lparr>workletDumpedSamplesList := (workletDumpedSamplesList p)(ident \<mapsto> smpData),
                       voiceObjects := forEachVoice (sampleDumpVoice g ident smpData) channelVoices
                                         (voiceObjects p)\<rparr>)
           | CcReset excluded \<Rightarrow> resetControllers channel excluded p
           | CcChange ccNum ccVal \<Rightarrow>
               (let (ch1, h1) =
                      (if ccNum = sustainPedal then
                         (if ccVal \<ge> 64 then (ch\<lparr>holdPedal := True\<rparr>, voiceObjects p)
                          else (ch\<lparr>holdPedal := False, sustainedVoices := []\<rparr>,
                                forEachVoice (releaseVoice g) (sustainedVoices ch) (voiceObjects p)))
                       else (ch, voiceObjects p));
                    ch2 = ch1\<lparr>midiControllers := (midiControllers ch1)[ccNum := toInt16 ccVal]\<rparr>
                in Some (setChannel channel ch2
                     (p\<lparr>voiceObjects := forEachVoice (\<lambda>v. computeModulators g v (midiControllers ch2))
                                          channelVoices h1\<rparr>)))
           | SetChannelVibrato vib \<Rightarrow> Some (setChannel channel (ch\<lparr>channelVibrato := vib\<rparr>) p)
           | ClearCache \<Rightarrow> Some (p\<lparr>workletDumpedSamplesList := Map.empty\<rparr>)
           | StopAll mode \<Rightarrow>
               (if mode = 1 then Some (updateVoicesAmount (setChannel channel (ch\<lparr>voices := []\<rparr>) p))
                else Some (p\<lparr>voiceObjects :=
                       forEachVoice (\<lambda>v. if isInRelease v then v else releaseVoice g v) channelVoices
                         (voiceObjects p)\<rparr>))
           | KillNotes amount \<Rightarrow> voiceKilling amount p
           | MuteChannel muted \<Rightarrow> Some (setChannel channel (ch\<lparr>isMuted := muted\<rparr>) p)
           | AddNewChannel \<Rightarrow> createWorkletChannel p)"

subsection \<open>Rendering\<close>

definition releaseReached :: "WorkletGlobals \<Rightarrow> WorkletVoice \<Rightarrow> bool" where
  \<comment> \<open>\<open>currentTime >= voice.releaseStartTime\<close>, false while the latter is \<open>Infinity\<close>\<close>
  "releaseReached g voice =
     (case releaseStartTime voice of None \<Rightarrow> False | Some t \<Rightarrow> currentTime g \<ge> t)"

definition modLfo :: "WorkletGlobals \<Rightarrow> WorkletVoice \<Rightarrow> real \<times> real \<Rightarrow> real \<times> real \<times> real" where
  \<comment> \<open>the block headed \<open>// mod LFO\<close>: from \<open>cents\<close> and \<open>lowpassCents\<close> before it to
      \<open>cents\<close>, \<open>modLfoCentibels\<close> and \<open>lowpassCents\<close> after it\<close>
  "modLfo g voice cl =
     (case cl of (cents, lowpassCents) \<Rightarrow>
      let modPitchDepth = modulatedGenerators voice ! modLfoToPitch;
          modVolDepth = modulatedGenerators voice ! modLfoToVolume;
          modFilterDepth = modulatedGenerators voice ! modLfoToFilterFc
      in if modPitchDepth + modFilterDepth + modVolDepth > 0 then
           (let modStart = startTime voice
                  + timecentsToSeconds g (modulatedGenerators voice ! delayModLFO);
                modFreqHz = absCentsToHz g (modulatedGenerators voice ! freqModLFO);
                modLfoValue = getLFOValue g modStart modFreqHz (currentTime g)
            in (cents + modLfoValue * real_of_int modPitchDepth,
                modLfoValue * real_of_int modVolDepth,
                lowpassCents + modLfoValue * real_of_int modFilterDepth))
         else (cents, 0, lowpassCents))"

type_synonym RenderTargets = "AudioBuffers option \<times> AudioBuffers option \<times> AudioBuffers option"

text \<open>
  \<open>renderVoice\<close> returns the voice and the three targets as it leaves them; \<open>None\<close> when
  it throws, which it does at \<open>output[0].length\<close> if the output is undefined or has no plane.
  The reverb and chorus targets are only handed on to \<open>panVoice\<close>, undefined or not.
\<close>

definition renderVoice ::
  "WorkletGlobals \<Rightarrow> (nat \<Rightarrow> real list option) \<Rightarrow> WorkletProcessorChannel \<Rightarrow> WorkletVoice
     \<Rightarrow> RenderTargets \<Rightarrow> (WorkletVoice \<times> RenderTargets) option" where
  "renderVoice g samples channel voice0 targets =
     (case targets of (output, reverbOutput, chorusOutput) \<Rightarrow>
      (case samples (sampleID (sample voice0)) of
        None \<Rightarrow> Some (voice0, targets)
      | Some smpData \<Rightarrow>
          let voice1 = (if \<not> isInRelease voice0 \<and> releaseReached g voice0
                        then voice0\<lparr>releaseStartModEnv := currentModEnvValue voice0,
                                    isInRelease := True\<rparr>
                        else voice0)
          in if modulatedGenerators voice1 ! initialAttenuation > 2500 then
               Some (if isInRelease voice1 then voice1\<lparr>finished := True\<rparr> else voice1, targets)
             else
               let mg = modulatedGenerators voice1;
                   cents0 = real_of_int (mg ! fineTune
                      + midiControllers channel ! (NON_CC_INDEX_OFFSET + channelTuning)
                      + midiControllers channel ! (NON_CC_INDEX_OFFSET + channelTranspose));
                   semitones = mg ! coarseTune;
                   cents1 = cents0
                      + real_of_int ((targetKey voice1 - rootKey (sample voice1)) * mg ! scaleTuning);
                   vibratoDepth = mg ! vibLfoToPitch;
                   cents2 = (if vibratoDepth > 0 then
                      (let vibStart = startTime voice1 + timecentsToSeconds g (mg ! delayVibLFO);
                           vibFreqHz = absCentsToHz g (mg ! freqVibLFO);
                           lfoVal = getLFOValue g vibStart vibFreqHz (currentTime g)
                       in if lfoVal \<noteq> 0 then cents1 + lfoVal * real_of_int vibratoDepth else cents1)
                      else cents1);
                   lowpassCents0 = real_of_int (mg ! initialFilterFc);
                   (cents3, modLfoCentibels, lowpassCents1) = modLfo g voice1 (cents2, lowpassCents0);
                   cents4 = (if vibDepth (channelVibrato channel) > 0 then
                      (let chanVib = getLFOValue g
                             (startTime voice1 + vibDelay (channelVibrato channel))
                             (vibRate (channelVibrato channel)) (currentTime g)
                       in if chanVib \<noteq> 0 then cents3 + chanVib * vibDepth (channelVibrato channel)
                          else cents3)
                      else cents3);
                   modEnvPitchDepth = mg ! modEnvToPitch;
                   modEnvFilterDepth = mg ! modEnvToFilterFc;
                   (modEnv, voice2) = getModEnvValue g voice1 (currentTime g);
                   lowpassCents2 = lowpassCents1 + modEnv * real_of_int modEnvFilterDepth;
                   cents5 = cents4 + modEnv * real_of_int modEnvPitchDepth;
                   centsTotal = toInt32 (jsTrunc (cents5 + real_of_int (semitones * 100)));
                   voice3 = (if centsTotal \<noteq> currentTuningCents voice2
                             then voice2\<lparr>currentTuningCents := centsTotal,
                                         currentTuningCalculated := 2 powr (real_of_int centsTotal / 1200)\<rparr>
                             else voice2);
                   panValue = real_of_int (max (- 500) (min 500 (modulatedGenerators voice3 ! pan)) + 500)
                                / 1000
               in (case output of
                    None \<Rightarrow> None
                  | Some [] \<Rightarrow> None
                  | Some (plane # planes) \<Rightarrow>
                      let bufferOut0 = replicate (length plane) 0;
                          (voice4, bufferOut1) = getOscillatorData g voice3 smpData bufferOut0;
                          (voice5, bufferOut2) = applyLowpassFilter g voice4 bufferOut1 lowpassCents2;
                          (voice6, bufferOut3) = applyVolumeEnvelope g voice5 bufferOut2 (currentTime g)
                                                   modLfoCentibels (1 / globalSampleRate g);
                          (output1, reverbOutput1, chorusOutput1) =
                             panVoice g panValue bufferOut3 (plane # planes)
                               reverbOutput (modulatedGenerators voice6 ! reverbEffectsSend)
                               chorusOutput (modulatedGenerators voice6 ! chorusEffectsSend)
                      in Some (voice6, Some output1, reverbOutput1, chorusOutput1))))"

definition outputAt :: "AudioBuffers list \<Rightarrow> nat option \<Rightarrow> AudioBuffers option" where
  \<comment> \<open>\<open>outputs[k]\<close> for a number \<open>k\<close>, \<open>None\<close> standing for \<open>NaN\<close>: undefined there and
      beyond the array\<close>
  "outputAt outputs k =
     (case k of None \<Rightarrow> None
      | Some i \<Rightarrow> if i < length outputs then Some (outputs ! i) else None)"

definition writeBack ::
  "AudioBuffers list \<Rightarrow> nat option \<Rightarrow> AudioBuffers option \<Rightarrow> AudioBuffers list" where
  \<comment> \<open>the buffers are written in place: what was rendered into \<open>outputs[k]\<close> is in \<open>outputs\<close>\<close>
  "writeBack outputs k b =
     (case (k, b) of (Some i, Some b') \<Rightarrow> outputs[i := b'] | _ \<Rightarrow> outputs)"

fun renderVoices ::
  "WorkletGlobals \<Rightarrow> (nat \<Rightarrow> real list option) \<Rightarrow> WorkletProcessorChannel \<Rightarrow> nat option
     \<Rightarrow> nat list \<Rightarrow> (nat \<Rightarrow> WorkletVoice) \<times> AudioBuffers list \<times> nat list
     \<Rightarrow> ((nat \<Rightarrow> WorkletVoice) \<times> AudioBuffers list \<times> nat list) option" where
  \<comment> \<open>\<open>tempV.forEach(v => ...)\<close>: the store, the outputs and the new \<open>channel.voices\<close>\<close>
  "renderVoices g samples channel outputIndex [] acc = Some acc"
| "renderVoices g samples channel outputIndex (r # rs) acc =
     (case acc of (h, outputs, kept) \<Rightarrow>
      (case renderVoice g samples channel (h r)
             (outputAt outputs outputIndex, outputAt outputs (Some 0), outputAt outputs (Some 1)) of
        None \<Rightarrow> None
      | Some (v, output1, reverb1, chorus1) \<Rightarrow>
          renderVoices g samples channel outputIndex rs
            (h(r := v),
             writeBack (writeBack (writeBack outputs outputIndex output1) (Some 0) reverb1)
               (Some 1) chorus1,
             if \<not> finished v then kept @ [r] else kept)))"

fun processChannels ::
  "WorkletGlobals \<Rightarrow> (nat \<Rightarrow> real list option) \<Rightarrow> nat \<Rightarrow> nat \<Rightarrow> WorkletProcessorChannel list
     \<Rightarrow> (nat \<Rightarrow> WorkletVoice) \<times> AudioBuffers list \<times> int
     \<Rightarrow> (WorkletProcessorChannel list \<times> (nat \<Rightarrow> WorkletVoice) \<times> AudioBuffers list \<times> int) option" where
  \<comment> \<open>\<open>workletProcessorChannels.forEach((channel, index) => ...)\<close> from \<open>index\<close> on, with
      the store, the outputs and \<open>totalCurrentVoices\<close>; \<open>n\<close> is \<open>_outputsAmount\<close>, and
      \<open>index % 0\<close> is \<open>NaN\<close>, as is \<open>NaN + 2\<close>\<close>
  "processChannels g samples n index [] acc =
     (case acc of (h, outputs, totalCurrentVoices) \<Rightarrow> Some ([], h, outputs, totalCurrentVoices))"
| "processChannels g samples n index (channel # rest) acc =
     (case acc of (h, outputs, totalCurrentVoices) \<Rightarrow>
      if length (voices channel) < 1 \<or> isMuted channel then
        (case processChannels g samples n (Suc index) rest acc of
           None \<Rightarrow> None
         | Some (rest1, res) \<Rightarrow> Some (channel # rest1, res))
      else
        let outputIndex = (if n = 0 then None else Some (index mod n + 2));
            tempV = voices channel
        in (case renderVoices g samples channel outputIndex tempV (h, outputs, []) of
             None \<Rightarrow> None
           | Some (h1, outputs1, kept) \<Rightarrow>
               (case processChannels g samples n (Suc index) rest
                       (h1, outputs1, totalCurrentVoices + int (length tempV)) of
                  None \<Rightarrow> None
                | Some (rest1, res) \<Rightarrow> Some (channel\<lparr>voices := kept\<rparr> # rest1, res))))"

definition process ::
  "WorkletGlobals \<Rightarrow> AudioBuffers list \<Rightarrow> WorkletProcessor \<Rightarrow> (WorkletProcessor \<times> AudioBuffers list) option" where
  "process g outputs p =
     (case processChannels g (workletDumpedSamplesList p) (outputsAmount p) 0
             (workletProcessorChannels p) (voiceObjects p, outputs, 0) of
        None \<Rightarrow> None
      | Some (chs, h, outputs1, totalCurrentVoices) \<Rightarrow>
          let p1 = p\<lparr>workletProcessorChannels := chs, voiceObjects := h\<rparr>
          in Some (if totalCurrentVoices \<noteq> totalVoicesAmount p1
                   then updateVoicesAmount (p1\<lparr>totalVoicesAmount := totalCurrentVoices\<rparr>)
                   else p1,
                   outputs1))"

section \<open>The single-channel processor (\<open>channel_processor.js\<close>)\<close>

definition CHANNEL_CAP :: nat where "CHANNEL_CAP = 400"

record ChannelProcessor =
  cpMidiControllers :: "int list" \<comment> \<open>the field \<open>midiControllers\<close>\<close>
  cpChannelVibrato :: ChannelVibrato \<comment> \<open>the field \<open>channelVibrato\<close>\<close>
  cpVoices :: "nat list" \<comment> \<open>the field \<open>voices\<close>\<close>
  cpSustainedVoices :: "nat list" \<comment> \<open>the field \<open>sustainedVoices\<close>\<close>
  cpHoldPedal :: bool \<comment> \<open>the field \<open>holdPedal\<close>\<close>
  cpVoiceObjects :: "nat \<Rightarrow> WorkletVoice"
  cpNextVoiceRef :: nat
  cpDumpedSamplesList :: "nat \<Rightarrow> real list option" \<comment> \<open>this module's \<open>workletDumpedSamplesList\<close>\<close>
  cpPosted :: "nat list" \<comment> \<open>the voice counts posted on the port, oldest first\<close>

definition cpNoteOffVoice :: "WorkletGlobals \<Rightarrow> int \<Rightarrow> nat \<Rightarrow> ChannelProcessor \<Rightarrow> ChannelProcessor" where
  "cpNoteOffVoice g note r cp =
     (if midiNote (cpVoiceObjects cp r) \<noteq> note \<or> isInRelease (cpVoiceObjects cp r) then cp
      else if cpHoldPedal cp then cp\<lparr>cpSustainedVoices := cpSustainedVoices cp @ [r]\<rparr>
      else cp\<lparr>cpVoiceObjects := (cpVoiceObjects cp)(r := releaseVoice g (cpVoiceObjects cp r))\<rparr>)"

definition cpResetControllers :: "nat list \<Rightarrow> ChannelProcessor \<Rightarrow> ChannelProcessor" where
  "cpResetControllers excluded cp =
     (let excludedCCvalues = map (\<lambda>ccNum. (ccNum, cpMidiControllers cp ! ccNum)) excluded;
          transpose = cpMidiControllers cp ! (NON_CC_INDEX_OFFSET + channelTranspose);
          restored = foldl (\<lambda>c cc. c[fst cc := snd cc])
                       (resetArray[NON_CC_INDEX_OFFSET + channelTranspose := transpose])
                       excludedCCvalues
      in cp\<lparr>cpMidiControllers := restored,
            cpChannelVibrato := \<lparr>vibDelay = 0, vibDepth = 0, vibRate = 0\<rparr>,
            cpHoldPedal := False\<rparr>)"

definition cpRenderVoice ::
  "WorkletGlobals \<Rightarrow> ChannelProcessor \<Rightarrow> WorkletVoice \<Rightarrow> RenderTargets
     \<Rightarrow> (WorkletVoice \<times> RenderTargets) option" where
  \<comment> \<open>\<open>ChannelProcessor.renderVoice\<close> has the text of \<open>WorkletProcessor.renderVoice\<close>, with
      \<open>this.midiControllers\<close> and \<open>this.channelVibrato\<close> for those of the channel\<close>
  "cpRenderVoice g cp voice targets =
     renderVoice g (cpDumpedSamplesList cp)
       \<lparr>midiControllers = cpMidiControllers cp, holdPedal = cpHoldPedal cp,
        channelVibrato = cpChannelVibrato cp, isMuted = False,
        voices = cpVoices cp, sustainedVoices = cpSustainedVoices cp\<rparr>
       voice targets"

definition cpHandleMessage :: "WorkletGlobals \<Rightarrow> WorkletMessageData \<Rightarrow> ChannelProcessor \<Rightarrow> ChannelProcessor" where
  \<comment> \<open>\<open>ChannelProcessor.handleMessage\<close>; the message types it has no case for fall to \<open>default\<close>\<close>
  "cpHandleMessage g msgData cp =
     (case msgData of
        NoteOff note \<Rightarrow> fold (cpNoteOffVoice g note) (cpVoices cp) cp
      | KillNote note \<Rightarrow>
          cp\<lparr>cpVoiceObjects := forEachVoice (killNoteVoice g note) (cpVoices cp) (cpVoiceObjects cp)\<rparr>
      | NoteOn newVoices \<Rightarrow>
          (case noteOnVoices g (cpMidiControllers cp) (cpVoices cp) newVoices (cpVoiceObjects cp) of
             (newVoices1, h1) \<Rightarrow>
               let refs = [cpNextVoiceRef cp ..< cpNextVoiceRef cp + length newVoices1];
                   pushed = cpVoices cp @ refs;
                   capped = (if length pushed > CHANNEL_CAP
                             then drop (length pushed - CHANNEL_CAP) pushed else pushed)
               in cp\<lparr>cpVoiceObjects := allocVoices newVoices1 (cpNextVoiceRef cp) h1,
                     cpNextVoiceRef := cpNextVoiceRef cp + length newVoices1,
                     cpVoices := capped,
                     cpPosted := cpPosted cp @ [length capped]\<rparr>)
      | SampleDumpData ident smpData \<Rightarrow>
          cp\<lparr>cpDumpedSamplesList := (cpDumpedSamplesList cp)(ident \<mapsto> smpData),
             cpVoiceObjects := forEachVoice (sampleDumpVoice g ident smpData) (cpVoices cp)
                                 (cpVoiceObjects cp)\<rparr>
      | CcReset excluded \<Rightarrow> cpResetControllers excluded cp
      | CcChange ccNum ccVal \<Rightarrow>
          (let cp1 = (if ccNum = sustainPedal then
                        (if ccVal \<ge> 64 then cp\<lparr>cpHoldPedal := True\<rparr>
                         else cp\<lparr>cpHoldPedal := False,
                                 cpVoiceObjects := forEachVoice (releaseVoice g) (cpSustainedVoices cp)
                                                     (cpVoiceObjects cp),
                                 cpSustainedVoices := []\<rparr>)
                      else cp);
               cp2 = cp1\<lparr>cpMidiControllers := (cpMidiControllers cp1)[ccNum := toInt16 ccVal]\<rparr>
           in cp2\<lparr>cpVoiceObjects := forEachVoice (\<lambda>v. computeModulators g v (cpMidiControllers cp2))
                                      (cpVoices cp2) (cpVoiceObjects cp2)\<rparr>)
      | SetChannelVibrato vib \<Rightarrow> cp\<lparr>cpChannelVibrato := vib\<rparr>
      | ClearCache \<Rightarrow> cp\<lparr>cpDumpedSamplesList := Map.empty\<rparr>
      | StopAll mode \<Rightarrow>
          (if mode = 1 then cp\<lparr>cpVoices := [], cpPosted := cpPosted cp @ [0]\<rparr>
           else cp\<lparr>cpVoiceObjects :=
                  forEachVoice (\<lambda>v. if isInRelease v then v else releaseVoice g v) (cpVoices cp)
                    (cpVoiceObjects cp)\<rparr>)
      | KillNotes amount \<Rightarrow>
          \<comment> \<open>\<open>this.voices.splice(0, data)\<close>: the first \<open>data\<close> voices go, none if \<open>data\<close> is negative\<close>
          (let remaining = drop (nat amount) (cpVoices cp)
           in cp\<lparr>cpVoices := remaining, cpPosted := cpPosted cp @ [length remaining]\<rparr>)
      | MuteChannel muted \<Rightarrow> cp
      | AddNewChannel \<Rightarrow> cp
      | OtherMessage \<Rightarrow> cp)"

section \<open>The combination of generator layers\<close>

definition addAndClamp :: "(nat \<Rightarrow> int \<times> int) \<Rightarrow> nat \<Rightarrow> int list \<Rightarrow> int list \<Rightarrow> int" where
  \<comment> \<open>Modelled from the spec: \<open>generators.js\<close>, which holds \<open>addAndClampGenerator\<close> and the
      table of generator ranges, is not among the sources.  The spec has the two layers
      combined by adding, for each index, the instrument value to the preset value and
      clamping the sum to that index's range; the table of ranges is a parameter.\<close>
  "addAndClamp limits i presetGens instrumentGens =
     max (fst (limits i)) (min (snd (limits i)) (presetGens ! i + instrumentGens ! i))"

section \<open>Quantities named in the properties\<close>




definition rehomed :: "WorkletGlobals \<Rightarrow> WorkletVoice \<Rightarrow> real" where
  \<comment> \<open>\<open>(v.sample.playbackStep * sampleRate) * (currentTime - v.startTime)\<close>, the cursor a
      sample dump first assigns\<close>
  "rehomed g v = (playbackStep (sample v) * globalSampleRate g) * (currentTime g - startTime v)"

definition dumpedEnd :: "real list \<Rightarrow> WorkletVoice \<Rightarrow> real" where
  \<comment> \<open>the \<open>end\<close> a sample dump assigns\<close>
  "dumpedEnd d v = real_of_int (int (length d) - 1 + generators v ! endAddrOffset
        + generators v ! endAddrsCoarseOffset * 32768)"

definition modLfoValueOf :: "WorkletGlobals \<Rightarrow> WorkletVoice \<Rightarrow> real" where
  \<comment> \<open>the value of the mod LFO, from \<open>delayModLFO\<close> and \<open>freqModLFO\<close>\<close>
  "modLfoValueOf g voice =
     getLFOValue g
       (startTime voice + timecentsToSeconds g (modulatedGenerators voice ! delayModLFO))
       (absCentsToHz g (modulatedGenerators voice ! freqModLFO))
       (currentTime g)"

definition forcedRelease :: "WorkletGlobals \<Rightarrow> int list \<Rightarrow> real \<Rightarrow> WorkletVoice \<Rightarrow> bool" where
  \<comment> \<open>a voice started at \<open>t0\<close> as an exclusive-class cut-off leaves it: release forced to
      \<open>-7200\<close>, released, and its modulators computed on that\<close>
  "forcedRelease g controllers t0 v \<longleftrightarrow>
     generators v ! releaseVolEnv = - 7200
     \<and> releaseStartTime v = Some (max (currentTime g) (t0 + MIN_NOTE_LENGTH))
     \<and> (\<exists>w. v = computeModulators g w controllers
            \<and> generators w ! releaseVolEnv = - 7200
            \<and> releaseStartTime w = Some (max (currentTime g) (t0 + MIN_NOTE_LENGTH)))"

definition sameVoice :: "int \<Rightarrow> real \<Rightarrow> WorkletVoice \<Rightarrow> bool" where
  \<comment> \<open>what a cut-off keeps of a voice: its class, its 60 generator slots, its start\<close>
  "sameVoice e0 t0 v \<longleftrightarrow>
     generators v ! exclusiveClass = e0 \<and> length (generators v) = 60 \<and> startTime v = t0"

definition renderedCount :: "WorkletProcessorChannel \<Rightarrow> int" where
  \<comment> \<open>what a channel adds to \<open>totalCurrentVoices\<close> in a block\<close>
  "renderedCount ch = (if length (voices ch) < 1 \<or> isMuted ch then 0 else int (length (voices ch)))"

definition removeVoices :: "nat set \<Rightarrow> WorkletProcessorChannel list \<Rightarrow> WorkletProcessorChannel list" where
  \<comment> \<open>the channels with the voices in \<open>K\<close> taken out of every list, the order kept\<close>
  "removeVoices K chs = map (\<lambda>ch. ch\<lparr>voices := filter (\<lambda>x. x \<notin> K) (voices ch)\<rparr>) chs"

definition channelsConsistent :: "(nat \<Rightarrow> WorkletVoice) \<Rightarrow> WorkletProcessorChannel list \<Rightarrow> bool" where
  \<comment> \<open>every listed voice names, in \<open>channelNumber\<close>, the channel that lists it\<close>
  "channelsConsistent h chs \<longleftrightarrow>
     (\<forall>c < length chs. \<forall>r \<in> set (voices (chs ! c)). channelNumber (h r) = c)"

definition killedVoices :: "int \<Rightarrow> WorkletProcessor \<Rightarrow> nat list" where
  \<comment> \<open>the first \<open>amount\<close> of all listed voices in ascending order of velocity\<close>
  "killedVoices amount p =
     take (nat amount) (sort_key (\<lambda>r. velocity (voiceObjects p r))
        (allVoices (workletProcessorChannels p)))"

definition releaseChecked :: "WorkletGlobals \<Rightarrow> WorkletVoice \<Rightarrow> WorkletVoice" where
  \<comment> \<open>the voice after the release check at the head of \<open>renderVoice\<close>\<close>
  "releaseChecked g voice =
     (if \<not> isInRelease voice \<and> releaseReached g voice
      then voice\<lparr>releaseStartModEnv := currentModEnvValue voice, isInRelease := True\<rparr>
      else voice)"

definition modLfoGate :: "WorkletVoice \<Rightarrow> bool" where
  \<comment> \<open>the test that guards the mod LFO block\<close>
  "modLfoGate voice \<longleftrightarrow>
     modulatedGenerators voice ! modLfoToPitch + modulatedGenerators voice ! modLfoToFilterFc
       + modulatedGenerators voice ! modLfoToVolume > 0"

definition pitchCents ::
  "WorkletGlobals \<Rightarrow> WorkletProcessorChannel \<Rightarrow> WorkletVoice \<Rightarrow> real \<Rightarrow> real \<Rightarrow> real" where
  \<comment> \<open>the number \<open>renderVoice\<close> truncates to \<open>centsTotal\<close>, in the order the code adds it up:
      fine tune, channel tuning and transpose, key scaling, vibrato LFO, then what the mod
      LFO block adds (\<open>modLfoCents\<close>), channel vibrato, the modulation envelope (of value
      \<open>modEnv\<close>) and \<open>semitones * 100\<close>\<close>
  "pitchCents g channel voice modLfoCents modEnv =
     (let mg = modulatedGenerators voice;
          cents0 = real_of_int (mg ! fineTune
             + midiControllers channel ! (NON_CC_INDEX_OFFSET + channelTuning)
             + midiControllers channel ! (NON_CC_INDEX_OFFSET + channelTranspose));
          semitones = mg ! coarseTune;
          cents1 = cents0
             + real_of_int ((targetKey voice - rootKey (sample voice)) * mg ! scaleTuning);
          vibratoDepth = mg ! vibLfoToPitch;
          cents2 = (if vibratoDepth > 0 then
             (let vibStart = startTime voice + timecentsToSeconds g (mg ! delayVibLFO);
                  vibFreqHz = absCentsToHz g (mg ! freqVibLFO);
                  lfoVal = getLFOValue g vibStart vibFreqHz (currentTime g)
              in if lfoVal \<noteq> 0 then cents1 + lfoVal * real_of_int vibratoDepth else cents1)
             else cents1);
          cents3 = cents2 + modLfoCents;
          cents4 = (if vibDepth (channelVibrato channel) > 0 then
             (let chanVib = getLFOValue g
                    (startTime voice + vibDelay (channelVibrato channel))
                    (vibRate (channelVibrato channel)) (currentTime g)
              in if chanVib \<noteq> 0 then cents3 + chanVib * vibDepth (channelVibrato channel)
                 else cents3)
             else cents3);
          cents5 = cents4 + modEnv * real_of_int (mg ! modEnvToPitch)
      in cents5 + real_of_int (semitones * 100))"

definition retuned :: "int \<Rightarrow> WorkletVoice \<Rightarrow> WorkletVoice" where
  \<comment> \<open>the assignment of \<open>centsTotal\<close> to the voice's tuning, made when it differs\<close>
  "retuned centsTotal voice =
     (if centsTotal \<noteq> currentTuningCents voice
      then voice\<lparr>currentTuningCents := centsTotal,
                  currentTuningCalculated := 2 powr (real_of_int centsTotal / 1200)\<rparr>
      else voice)"

section \<open>Example inputs\<close>

text \<open>
  A builder context whose range table leaves every slot the whole 16-bit range, a
  compressed sample whose decoding has been started and has not finished, and zones over
  it that set the \<open>velocity\<close> and \<open>sampleModes\<close> generators.
\<close>

definition exampleLimits :: "nat \<Rightarrow> int \<times> int" where
  "exampleLimits i = (- 32768, 32767)"

definition exampleContext :: BuilderContext where
  "exampleContext = \<lparr>contextCurrentTime = 1, contextSampleRate = 48000,
     addAndClampGenerator = addAndClamp exampleLimits,
     getAudioDataSync = (\<lambda>s. (s\<lparr>isSampleLoaded := True\<rparr>, sampleData s)),
     getAudioData = (\<lambda>s. s)\<rparr>"

definition exampleSample :: Sample where
  "exampleSample = \<lparr>isCompressed = True, isSampleLoaded = False, samplePitch = 60,
     samplePitchCorrection = 0, sampleLoopStartIndex = 200, sampleLoopEndIndex = 400,
     sampleRate = 48000, sampleData = []\<rparr>"

definition exampleZone :: "int \<Rightarrow> int \<Rightarrow> SampleAndGenerators" where
  "exampleZone vel modes = \<lparr>zoneSampleID = 0, zoneSample = 0,
     presetGenerators = replicate 60 0,
     instrumentGenerators = (replicate 60 0)[keyNum := - 1, overridingRootKey := - 1,
        velocityGen := vel, sampleModes := modes],
     zoneModulators = []\<rparr>"

definition exampleBuilderState :: "nat set \<Rightarrow> BuilderState" where
  "exampleBuilderState dumped = \<lparr>globalDumpedSamplesList = dumped,
     sampleObjects = (\<lambda>_. exampleSample), cachedVoices = (\<lambda>_. None),
     postedDumps = [], pendingDumps = []\<rparr>"

definition exampleBuiltVoice :: "int \<Rightarrow> WorkletVoice" where
  "exampleBuiltVoice modes = hd (fst (getWorkletVoices exampleContext 0 60 64
      (\<lambda>_ _. [exampleZone (- 1) modes]) (exampleBuilderState {0})))"

text \<open>
  Worklet globals at time \<open>t\<close> with stand-ins for the imported functions, a voice on
  channel 0 playing key 60, and processors built from channels of such voices.
\<close>

definition exampleGlobals :: "real \<Rightarrow> WorkletGlobals" where
  "exampleGlobals t = \<lparr>currentTime = t, globalSampleRate = 48000, VOICE_CAP = 400,
     modulatorResult = (\<lambda>v controllers. generators v),
     timecentsToSeconds = (\<lambda>_. 0), absCentsToHz = (\<lambda>_. 8),
     getLFOValue = (\<lambda>_ _ _. 1 / 2), getModEnvValue = (\<lambda>v _. (0, v)),
     getOscillatorData = (\<lambda>v _ b. (v, b)), applyLowpassFilter = (\<lambda>v b _. (v, b)),
     applyVolumeEnvelope = (\<lambda>v b _ _ _. (v, b)),
     panVoice = (\<lambda>_ _ out rev _ cho _. (out, rev, cho))\<rparr>"

definition exampleVoice :: WorkletVoice where
  "exampleVoice = \<lparr>
     sample = \<lparr>sampleID = 0, playbackStep = 1, cursor = 0, rootKey = 60, loopStart = 0,
       loopEnd = 100, sampleEnd = 0, loopingMode = 0\<rparr>,
     voiceFilter = initialFilter,
     generators = replicate 60 0,
     modulators = [],
     modulatedGenerators = replicate 60 0,
     finished = False, isInRelease = False, channelNumber = 0, velocity = 100, midiNote = 60,
     targetKey = 60, currentAttenuationDb = 100, volumeEnvelopeState = 0,
     currentModEnvValue = 0, startTime = 0, releaseStartTime = None, releaseStartModEnv = 1,
     currentTuningCents = 0, currentTuningCalculated = 1\<rparr>"

definition exampleChannel :: "nat list \<Rightarrow> WorkletProcessorChannel" where
  "exampleChannel vs = \<lparr>midiControllers = resetArray, holdPedal = False,
     channelVibrato = \<lparr>vibDelay = 0, vibDepth = 0, vibRate = 0\<rparr>, isMuted = False,
     voices = vs, sustainedVoices = []\<rparr>"

definition exampleProcessor ::
  "(nat \<Rightarrow> WorkletVoice) \<Rightarrow> WorkletProcessorChannel list \<Rightarrow> WorkletProcessor" where
  "exampleProcessor h chs = \<lparr>outputsAmount = length chs, workletProcessorChannels = chs,
     totalVoicesAmount = int (length (allVoices chs)), voiceObjects = h, nextVoiceRef = 1000,
     workletDumpedSamplesList = Map.empty, postedMessages = []\<rparr>"

definition dumpExample :: "WorkletProcessor option" where
  "dumpExample = handleMessage (exampleGlobals 1)
     \<lparr>messageChannel = 0, messageData = SampleDumpData 0 [0, 0, 0]\<rparr>
     (exampleProcessor (\<lambda>_. exampleVoice) [exampleChannel [0]])"

definition heldExample :: WorkletProcessor where
  "heldExample = exampleProcessor (\<lambda>_. exampleVoice) [(exampleChannel [0])\<lparr>holdPedal := True\<rparr>]"

definition noteOffExample :: "WorkletProcessor option" where
  "noteOffExample = handleMessage (exampleGlobals 1)
     \<lparr>messageChannel = 0, messageData = NoteOff 60\<rparr> heldExample"

definition negativeDepthVoice :: WorkletVoice where
  "negativeDepthVoice = exampleVoice\<lparr>modulatedGenerators := (replicate 60 0)[modLfoToPitch := - 50]\<rparr>"

definition silentExample :: "(WorkletProcessor \<times> AudioBuffers list) option" where
  "silentExample = process (exampleGlobals 1) []
     (exampleProcessor (\<lambda>_. exampleVoice) [exampleChannel [0]])"




definition fadingVoice :: WorkletVoice where
  "fadingVoice = exampleVoice\<lparr>isInRelease := True,
     modulatedGenerators := (replicate 60 0)[initialAttenuation := 3000]\<rparr>"

definition fadingProcessor :: WorkletProcessor where
  "fadingProcessor = (exampleProcessor (\<lambda>_. fadingVoice) [exampleChannel [0]])
     \<lparr>workletDumpedSamplesList := [0 \<mapsto> [0, 0, 0]]\<rparr>"

definition lagExample :: "(WorkletProcessor \<times> AudioBuffers list) option" where
  "lagExample = process (exampleGlobals 1) [] fadingProcessor"

definition stealingVoices :: "nat \<Rightarrow> WorkletVoice" where
  "stealingVoices = (\<lambda>_. exampleVoice)
     (1 := exampleVoice\<lparr>velocity := 10\<rparr>,
      2 := exampleVoice\<lparr>velocity := 50, channelNumber := 1\<rparr>)"

definition stealingProcessor :: WorkletProcessor where
  "stealingProcessor = exampleProcessor stealingVoices [exampleChannel [0, 1], exampleChannel [2]]"

definition stealingExample :: "WorkletProcessor option" where
  "stealingExample = handleMessage (exampleGlobals 1)
     \<lparr>messageChannel = 0, messageData = KillNotes 2\<rparr> stealingProcessor"

definition earliestVoices :: ChannelProcessor where
  "earliestVoices = \<lparr>cpMidiControllers = resetArray,
     cpChannelVibrato = \<lparr>vibDelay = 0, vibDepth = 0, vibRate = 0\<rparr>,
     cpVoices = [0, 1], cpSustainedVoices = [], cpHoldPedal = False,
     cpVoiceObjects = (\<lambda>_. exampleVoice)(1 := exampleVoice\<lparr>velocity := 10\<rparr>),
     cpNextVoiceRef = 2, cpDumpedSamplesList = Map.empty, cpPosted = []\<rparr>"





text \<open>
  Globals whose filter and envelope stand-ins leave in the voice what they were handed,
  the cutoff in \<open>filter.cutoffCents\<close> and the centibels in \<open>currentAttenuationDb\<close>; a
  voice with the three mod LFO depths set; and the rendering of a voice on channel 0 into
  a stereo output of two frames.
\<close>

definition probeGlobals :: WorkletGlobals where
  "probeGlobals = (exampleGlobals 1)\<lparr>
     applyLowpassFilter := (\<lambda>v b c. (v\<lparr>voiceFilter := (voiceFilter v)\<lparr>cutoffCents := c\<rparr>\<rparr>, b)),
     applyVolumeEnvelope := (\<lambda>v b _ centibels _. (v\<lparr>currentAttenuationDb := centibels\<rparr>, b))\<rparr>"

definition lfoVoice :: WorkletVoice where
  "lfoVoice = exampleVoice\<lparr>modulatedGenerators :=
     (replicate 60 0)[modLfoToPitch := 50, modLfoToVolume := 20, modLfoToFilterFc := 30]\<rparr>"

definition rendered :: "WorkletVoice \<Rightarrow> (WorkletVoice \<times> RenderTargets) option" where
  "rendered voice = renderVoice probeGlobals [0 \<mapsto> [0, 0, 0]] (exampleChannel [0]) voice
     (Some [[0, 0], [0, 0]], None, None)"

section \<open>Properties of the voice builder\<close>

lemmas generatorTypes_defs =
  startAddrsOffset_def endAddrOffset_def startloopAddrsOffset_def endloopAddrsOffset_def
  startAddrsCoarseOffset_def modLfoToPitch_def vibLfoToPitch_def modEnvToPitch_def
  initialFilterFc_def modLfoToFilterFc_def modEnvToFilterFc_def endAddrsCoarseOffset_def
  modLfoToVolume_def chorusEffectsSend_def reverbEffectsSend_def pan_def delayModLFO_def
  freqModLFO_def delayVibLFO_def freqVibLFO_def releaseVolEnv_def
  startloopAddrsCoarseOffset_def keyNum_def velocityGen_def initialAttenuation_def
  endloopAddrsCoarseOffset_def coarseTune_def fineTune_def sampleModes_def scaleTuning_def
  exclusiveClass_def overridingRootKey_def

lemma combineGenerators_length: "length (combineGenerators ctx z) = 60"
  by (simp add: combineGenerators_def Let_def)

lemma combineGenerators_nth:
  "i < 60 \<Longrightarrow> i \<noteq> initialAttenuation \<Longrightarrow>
   combineGenerators ctx z ! i = toInt16 (addAndClampGenerator ctx i (presetGenerators z) (instrumentGenerators z))"
  by (simp add: combineGenerators_def Let_def)

lemma buildVoice_velocity:
  "velocity (fst (buildVoice ctx channel note z (vel, cc, st))) =
     (if combineGenerators ctx z ! velocityGen > - 1 then combineGenerators ctx z ! velocityGen else vel)"
  by (simp add: buildVoice_def Let_def split: prod.splits)

lemma buildVoice_velocity_acc:
  "fst (snd (buildVoice ctx channel note z (vel, cc, st))) =
     (if combineGenerators ctx z ! velocityGen > - 1 then combineGenerators ctx z ! velocityGen else vel)"
  by (simp add: buildVoice_def Let_def split: prod.splits)

lemma buildVoice_generators:
  "generators (fst (buildVoice ctx channel note z acc)) = combineGenerators ctx z"
  by (cases acc) (simp add: buildVoice_def Let_def split: prod.splits)


lemma buildVoices_set:
  "v \<in> set (fst (buildVoices ctx channel note zs acc)) \<Longrightarrow>
   \<exists>z acc'. z \<in> set zs \<and> v = fst (buildVoice ctx channel note z acc')"
proof (induction zs arbitrary: acc)
  case Nil
  then show ?case by simp
next
  case (Cons z zs)
  obtain v1 acc1 where b: "buildVoice ctx channel note z acc = (v1, acc1)"
    by (cases "buildVoice ctx channel note z acc")
  obtain vs acc2 where bs: "buildVoices ctx channel note zs acc1 = (vs, acc2)"
    by (cases "buildVoices ctx channel note zs acc1")
  from Cons.prems b bs have "v = v1 \<or> v \<in> set vs" by simp
  then show ?case
  proof
    assume "v = v1"
    with b have "v = fst (buildVoice ctx channel note z acc)" by simp
    then show ?thesis by (intro exI [of _ z] exI [of _ acc]) simp
  next
    assume "v \<in> set vs"
    with bs have "v \<in> set (fst (buildVoices ctx channel note zs acc1))" by simp
    from Cons.IH [OF this] show ?thesis by auto
  qed
qed

lemma getWorkletVoices_miss:
  "cachedVoices st (note, vel) = None \<Longrightarrow>
   fst (getWorkletVoices ctx channel note vel preset st) =
     fst (buildVoices ctx channel note (preset note vel) (vel, True, st))"
  by (simp add: getWorkletVoices_def split: prod.splits)

lemma buildVoices_length: "length (fst (buildVoices ctx channel note zs acc)) = length zs"
proof (induction zs arbitrary: acc)
  case Nil
  then show ?case by simp
next
  case (Cons z zs)
  obtain v1 acc1 where b: "buildVoice ctx channel note z acc = (v1, acc1)"
    by (cases "buildVoice ctx channel note z acc")
  obtain vs acc2 where bs: "buildVoices ctx channel note zs acc1 = (vs, acc2)"
    by (cases "buildVoices ctx channel note zs acc1")
  from Cons.IH [of acc1] b bs show ?case by simp
qed










lemma example_gen:
  "i < 60 \<Longrightarrow> i \<noteq> initialAttenuation \<Longrightarrow>
   combineGenerators exampleContext (exampleZone vel modes) ! i =
     toInt16 (max (- 32768) (min 32767 (instrumentGenerators (exampleZone vel modes) ! i)))"
  by (simp add: combineGenerators_nth exampleContext_def addAndClamp_def exampleLimits_def
      exampleZone_def)

lemma example_velocityGen:
  assumes "- 1 \<le> vel" "vel \<le> 127"
  shows "combineGenerators exampleContext (exampleZone vel modes) ! velocityGen = vel"
proof -
  have "velocityGen < 60" "velocityGen \<noteq> initialAttenuation"
    by (simp_all add: generatorTypes_defs)
  from example_gen [OF this, of vel modes] assms show ?thesis
    by (simp add: exampleZone_def generatorTypes_defs toInt16_def)
qed

lemma example_sampleModes:
  assumes "0 \<le> modes" "modes \<le> 127"
  shows "combineGenerators exampleContext (exampleZone vel modes) ! sampleModes = modes"
proof -
  have "sampleModes < 60" "sampleModes \<noteq> initialAttenuation"
    by (simp_all add: generatorTypes_defs)
  from example_gen [OF this, of vel modes] assms show ?thesis
    by (simp add: exampleZone_def generatorTypes_defs toInt16_def)
qed

text \<open>
  Claim C10.  The velocity override assigns the variable \<open>velocity\<close> of the enclosing
  function: when the first zone of a group sets the \<open>velocity\<close> generator (value above
  \<open>-1\<close>) and the second does not, the voice built for the second zone carries the
  first zone's velocity, not the velocity of the note-on.
\<close>

theorem velocity_override_shared:
  assumes "cachedVoices st (n, vel) = None"
    and "preset n vel = z1 # z2 # zs"
    and "combineGenerators ctx z1 ! velocityGen > - 1"
    and "\<not> combineGenerators ctx z2 ! velocityGen > - 1"
  shows "velocity (fst (getWorkletVoices ctx channel n vel preset st) ! 1)
           = combineGenerators ctx z1 ! velocityGen"
proof -
  obtain v1 vel1 cc1 st1 where b1: "buildVoice ctx channel n z1 (vel, True, st) = (v1, vel1, cc1, st1)"
    by (cases "buildVoice ctx channel n z1 (vel, True, st)") auto
  have vel1: "vel1 = combineGenerators ctx z1 ! velocityGen"
    using buildVoice_velocity_acc [of ctx channel n z1 vel True st] b1 assms(3) by simp
  obtain v2 acc2 where b2: "buildVoice ctx channel n z2 (vel1, cc1, st1) = (v2, acc2)"
    by (cases "buildVoice ctx channel n z2 (vel1, cc1, st1)")
  have v2: "velocity v2 = vel1"
    using buildVoice_velocity [of ctx channel n z2 vel1 cc1 st1] b2 assms(4) by simp
  have "fst (getWorkletVoices ctx channel n vel preset st) ! 1 = v2"
    using assms(1,2) b1 b2 by (simp add: getWorkletVoices_miss split: prod.splits)
  with v2 vel1 show ?thesis by simp
qed

text \<open>
  A note-on with velocity 64 on two zones, the first with velocity generator 100, the
  second with none: the second voice has velocity 100.
\<close>

theorem velocity_override_shared_witness:
  "velocity (fst (getWorkletVoices exampleContext 0 60 64
      (\<lambda>_ _. [exampleZone 100 0, exampleZone (- 1) 0]) (exampleBuilderState {})) ! 1) = 100
   \<and> (100::int) \<noteq> 64"
  using velocity_override_shared [of "exampleBuilderState {}" 60 64
      "\<lambda>_ _. [exampleZone 100 0, exampleZone (- 1) 0]" "exampleZone 100 0" "exampleZone (- 1) 0" "[]"
      exampleContext 0]
  by (simp add: example_velocityGen) (simp add: exampleBuilderState_def)

lemma buildVoice_acc_dumped:
  "zoneSampleID z \<in> globalDumpedSamplesList st \<Longrightarrow>
   snd (buildVoice ctx channel note z (vel, cc, st)) =
     ((if combineGenerators ctx z ! velocityGen > - 1 then combineGenerators ctx z ! velocityGen
       else vel), cc, st)"
  by (simp add: buildVoice_def Let_def split: prod.splits)

lemma buildVoice_sample_dumped:
  "zoneSampleID z \<in> globalDumpedSamplesList st \<Longrightarrow>
   sample (fst (buildVoice ctx channel note z (vel, cc, st))) =
     (let smp = sampleObjects st (zoneSample z); gens = combineGenerators ctx z;
          loopStart0 = real_of_int (sampleLoopStartIndex smp) / 2
             + real_of_int (gens ! startloopAddrsOffset + gens ! startloopAddrsCoarseOffset * 32768);
          loopEnd0 = real_of_int (sampleLoopEndIndex smp) / 2
             + real_of_int (gens ! endloopAddrsOffset + gens ! endloopAddrsCoarseOffset * 32768)
      in \<lparr>sampleID = zoneSampleID z,
          playbackStep = (sampleRate smp / contextSampleRate ctx)
             * (2 powr (real_of_int (samplePitchCorrection smp) / 1200)),
          cursor = real_of_int (gens ! startAddrsOffset + gens ! startAddrsCoarseOffset * 32768),
          rootKey = (if gens ! overridingRootKey > - 1 then gens ! overridingRootKey
                     else samplePitch smp),
          loopStart = loopStart0,
          loopEnd = loopEnd0,
          sampleEnd = real_of_int (int (length (sampleData smp)) - 1
             + (gens ! endAddrOffset + gens ! endAddrsCoarseOffset * 32768)),
          loopingMode = (if loopEnd0 - loopStart0 < 1 then 0 else gens ! sampleModes)\<rparr>)"
  by (simp add: buildVoice_def Let_def split: prod.splits)

lemma example_zero_gen:
  assumes "i < 60" "i \<noteq> initialAttenuation" "i \<noteq> keyNum" "i \<noteq> overridingRootKey"
    "i \<noteq> velocityGen" "i \<noteq> sampleModes"
  shows "combineGenerators exampleContext (exampleZone vel modes) ! i = 0"
  using example_gen [OF assms(1,2), of vel modes] assms
  by (simp add: exampleZone_def toInt16_def)

lemma exampleBuiltVoice_eq:
  "exampleBuiltVoice modes =
     fst (buildVoice exampleContext 0 60 (exampleZone (- 1) modes) (64, True, exampleBuilderState {0}))"
  by (simp add: exampleBuiltVoice_def getWorkletVoices_miss exampleBuilderState_def
      split: prod.splits)

lemma exampleBuiltVoice_sample:
  "0 \<le> modes \<Longrightarrow> modes \<le> 127 \<Longrightarrow>
   loopStart (sample (exampleBuiltVoice modes)) = 100
   \<and> loopEnd (sample (exampleBuiltVoice modes)) = 200
   \<and> sampleEnd (sample (exampleBuiltVoice modes)) = - 1
   \<and> loopingMode (sample (exampleBuiltVoice modes)) = modes
   \<and> generators (exampleBuiltVoice modes) ! sampleModes = modes"
  unfolding exampleBuiltVoice_eq
  apply (subst buildVoice_sample_dumped, simp add: exampleBuilderState_def exampleZone_def)+
  apply (simp add: Let_def buildVoice_generators example_sampleModes)
  apply (simp add: example_zero_gen generatorTypes_defs)
  apply (simp add: exampleBuilderState_def exampleZone_def exampleSample_def)
  done





lemma getWorkletVoices_caches_while_loading:
  assumes "cachedVoices st (n, vel) = None"
    and "preset n vel = [z]"
    and "zoneSampleID z \<in> globalDumpedSamplesList st"
    and "\<not> combineGenerators ctx z ! velocityGen > - 1"
  shows "cachedVoices (snd (getWorkletVoices ctx channel n vel preset st)) (n, vel)
           = Some (fst (getWorkletVoices ctx channel n vel preset st))"
proof -
  obtain v acc where b: "buildVoice ctx channel n z (vel, True, st) = (v, acc)"
    by (cases "buildVoice ctx channel n z (vel, True, st)")
  from buildVoice_acc_dumped [OF assms(3), of ctx channel n vel True] b assms(4)
  have "acc = (vel, True, st)" by simp
  with b assms(1,2) show ?thesis
    by (simp add: getWorkletVoices_def)
qed

text \<open>
  Claim C6 at a failing input.  The only sample of the group has been handed to
  \<open>dumpSample\<close> by an earlier call and is still being decoded (\<open>isSampleLoaded\<close> is
  false).  The inner check that clears \<open>canCache\<close> is not reached, and the group is
  stored in the cache, with the \<open>end\<close> of the unloaded sample, \<open>-1\<close>.
\<close>

theorem cached_while_sample_still_loading:
  "zoneSampleID (exampleZone (- 1) 0) \<in> globalDumpedSamplesList (exampleBuilderState {0})
   \<and> \<not> isSampleLoaded (sampleObjects (exampleBuilderState {0}) (zoneSample (exampleZone (- 1) 0)))
   \<and> cachedVoices (exampleBuilderState {0}) (60, 64) = None
   \<and> cachedVoices (snd (getWorkletVoices exampleContext 0 60 64
        (\<lambda>_ _. [exampleZone (- 1) 0]) (exampleBuilderState {0}))) (60, 64)
       = Some [exampleBuiltVoice 0]
   \<and> sampleEnd (sample (exampleBuiltVoice 0)) = - 1"
proof -
  have m: "cachedVoices (exampleBuilderState {0}) (60, 64) = None"
    by (simp add: exampleBuilderState_def)
  have d: "zoneSampleID (exampleZone (- 1) 0) \<in> globalDumpedSamplesList (exampleBuilderState {0})"
    by (simp add: exampleBuilderState_def exampleZone_def)
  have l: "\<not> isSampleLoaded (sampleObjects (exampleBuilderState {0}) (zoneSample (exampleZone (- 1) 0)))"
    by (simp add: exampleBuilderState_def exampleSample_def)
  have f: "fst (getWorkletVoices exampleContext 0 60 64
      (\<lambda>_ _. [exampleZone (- 1) 0]) (exampleBuilderState {0})) = [exampleBuiltVoice 0]"
    by (simp add: exampleBuiltVoice_def getWorkletVoices_miss [OF m] split: prod.splits)
  have "cachedVoices (snd (getWorkletVoices exampleContext 0 60 64
        (\<lambda>_ _. [exampleZone (- 1) 0]) (exampleBuilderState {0}))) (60, 64)
       = Some [exampleBuiltVoice 0]"
    using getWorkletVoices_caches_while_loading [of "exampleBuilderState {0}" 60 64
        "\<lambda>_ _. [exampleZone (- 1) 0]" "exampleZone (- 1) 0" exampleContext 0] m d f
    by (simp add: example_velocityGen)
  with m d l exampleBuiltVoice_sample [of 0] show ?thesis by simp
qed

text \<open>
  On a cache hit the cached voices are returned with \<open>startTime\<close> set to the current
  time and nothing else changed, and nothing but that cache entry changes.
\<close>

lemma getWorkletVoices_hit:
  assumes "cachedVoices st (n, vel) = Some cached"
  shows "getWorkletVoices ctx channel n vel preset st =
           (map (\<lambda>v. v\<lparr>startTime := contextCurrentTime ctx\<rparr>) cached,
            st\<lparr>cachedVoices := (cachedVoices st)((n, vel) \<mapsto>
                 map (\<lambda>v. v\<lparr>startTime := contextCurrentTime ctx\<rparr>) cached)\<rparr>)"
  using assms by (simp add: getWorkletVoices_def Let_def)

section \<open>Properties of the processor\<close>

subsection \<open>Voice objects and release\<close>

lemma forEachVoice_other: "r \<notin> set rs \<Longrightarrow> forEachVoice f rs h r = h r"
  by (induction rs arbitrary: h) auto

lemma forEachVoice_idem:
  assumes "\<And>v. f (f v) = f v"
  shows "forEachVoice f rs h r = (if r \<in> set rs then f (h r) else h r)"
proof (induction rs arbitrary: h)
  case Nil
  then show ?case by simp
next
  case (Cons a rs)
  then show ?case by (simp add: assms)
qed

lemma forEachVoice_invariant:
  assumes "\<And>v. P (f v) = P v"
  shows "P (forEachVoice f rs h r) = P (h r)"
proof (induction rs arbitrary: h)
  case Nil
  then show ?case by simp
next
  case (Cons a rs)
  then show ?case by (simp add: assms)
qed

lemma releaseVoice_idem: "releaseVoice g (releaseVoice g v) = releaseVoice g v"
  by (simp add: releaseVoice_def Let_def)

lemma releaseVoice_releaseStartTime:
  "releaseStartTime (releaseVoice g v) = Some (max (currentTime g) (startTime v + MIN_NOTE_LENGTH))"
  by (simp add: releaseVoice_def Let_def max_def)

lemma releaseVoice_startTime: "startTime (releaseVoice g v) = startTime v"
  by (simp add: releaseVoice_def Let_def)

subsection \<open>Sample dump\<close>

lemma jsRem_range:
  assumes "0 \<le> a" "0 < b"
  shows "0 \<le> jsRem a b \<and> jsRem a b < b"
proof -
  have q: "0 \<le> a / b" using assms by simp
  then have t: "jsTrunc (a / b) = \<lfloor>a / b\<rfloor>" by (simp add: jsTrunc_def)
  have 1: "of_int \<lfloor>a / b\<rfloor> * b \<le> a"
    by (rule pos_le_divide_eq [THEN iffD1, OF assms(2) of_int_floor_le])
  have 2: "a < (of_int \<lfloor>a / b\<rfloor> + 1) * b"
    by (rule pos_divide_less_eq [THEN iffD1, OF assms(2) real_of_int_floor_add_one_gt])
  from 1 2 show ?thesis by (simp add: jsRem_def t algebra_simps)
qed

lemma sampleDumpVoice_char:
  "sampleID (sample v) = i \<Longrightarrow>
   sampleDumpVoice g i d v =
     v\<lparr>sample := (sample v)\<lparr>sampleEnd := dumpedEnd d v,
          cursor := (if loopingMode (sample v) \<noteq> 0 \<and> rehomed g v > loopEnd (sample v)
                     then jsRem (rehomed g v) (loopEnd (sample v) - loopStart (sample v))
                            + loopStart (sample v) - 1
                     else rehomed g v)\<rparr>,
       finished := (finished v \<or> (loopingMode (sample v) = 0 \<and> rehomed g v \<ge> dumpedEnd d v))\<rparr>"
  by (simp add: sampleDumpVoice_def Let_def rehomed_def dumpedEnd_def)

lemma sampleDumpVoice_idem:
  "sampleDumpVoice g i d (sampleDumpVoice g i d v) = sampleDumpVoice g i d v"
proof (cases "sampleID (sample v) = i")
  case False
  then show ?thesis by (simp add: sampleDumpVoice_def)
next
  case True
  let ?w = "sampleDumpVoice g i d v"
  define E where "E = dumpedEnd d v"
  define C where "C = (if loopingMode (sample v) \<noteq> 0 \<and> rehomed g v > loopEnd (sample v)
                     then jsRem (rehomed g v) (loopEnd (sample v) - loopStart (sample v))
                            + loopStart (sample v) - 1
                     else rehomed g v)"
  define F where "F = (finished v \<or> (loopingMode (sample v) = 0 \<and> rehomed g v \<ge> dumpedEnd d v))"
  have w: "?w = v\<lparr>sample := (sample v)\<lparr>sampleEnd := E, cursor := C\<rparr>, finished := F\<rparr>"
    unfolding E_def C_def F_def by (rule sampleDumpVoice_char [OF True])
  have i': "sampleID (sample ?w) = i" unfolding w using True by simp
  have E': "dumpedEnd d ?w = E" unfolding w E_def by (simp add: dumpedEnd_def)
  have C': "(if loopingMode (sample ?w) \<noteq> 0 \<and> rehomed g ?w > loopEnd (sample ?w)
                     then jsRem (rehomed g ?w) (loopEnd (sample ?w) - loopStart (sample ?w))
                            + loopStart (sample ?w) - 1
                     else rehomed g ?w) = C"
    unfolding w C_def by (simp add: rehomed_def)
  have F': "(finished ?w \<or> (loopingMode (sample ?w) = 0 \<and> rehomed g ?w \<ge> E)) = F"
    unfolding w F_def E_def by (auto simp add: rehomed_def)
  have "sampleDumpVoice g i d ?w =
      ?w\<lparr>sample := (sample ?w)\<lparr>sampleEnd := dumpedEnd d ?w,
          cursor := (if loopingMode (sample ?w) \<noteq> 0 \<and> rehomed g ?w > loopEnd (sample ?w)
                     then jsRem (rehomed g ?w) (loopEnd (sample ?w) - loopStart (sample ?w))
                            + loopStart (sample ?w) - 1
                     else rehomed g ?w)\<rparr>,
       finished := (finished ?w \<or> (loopingMode (sample ?w) = 0 \<and> rehomed g ?w \<ge> dumpedEnd d ?w))\<rparr>"
    by (rule sampleDumpVoice_char [OF i'])
  also have "\<dots> = ?w\<lparr>sample := (sample ?w)\<lparr>sampleEnd := E, cursor := C\<rparr>, finished := F\<rparr>"
    by (simp only: E' C' F')
  also have "\<dots> = ?w" unfolding w by simp
  finally show ?thesis .
qed

lemma sampleDumpVoice_end:
  "sampleID (sample v) = i \<Longrightarrow>
   sampleEnd (sample (sampleDumpVoice g i d v)) =
     real_of_int (int (length d) - 1 + generators v ! endAddrOffset
        + generators v ! endAddrsCoarseOffset * 32768)"
  by (simp add: sampleDumpVoice_def Let_def)

lemma sampleDumpVoice_noloop:
  "sampleID (sample v) = i \<Longrightarrow> loopingMode (sample v) = 0 \<Longrightarrow>
   cursor (sample (sampleDumpVoice g i d v)) = rehomed g v
   \<and> (finished (sampleDumpVoice g i d v) \<longleftrightarrow>
        finished v \<or> rehomed g v \<ge> sampleEnd (sample (sampleDumpVoice g i d v)))"
  by (simp add: sampleDumpVoice_def Let_def rehomed_def)

lemma sampleDumpVoice_wrap:
  "sampleID (sample v) = i \<Longrightarrow> loopingMode (sample v) \<noteq> 0 \<Longrightarrow> rehomed g v > loopEnd (sample v) \<Longrightarrow>
   cursor (sample (sampleDumpVoice g i d v)) =
     jsRem (rehomed g v) (loopEnd (sample v) - loopStart (sample v)) + loopStart (sample v) - 1"
  by (simp add: sampleDumpVoice_def Let_def rehomed_def)

lemma sampleDumpVoice_keep:
  "sampleID (sample v) = i \<Longrightarrow> loopingMode (sample v) \<noteq> 0 \<Longrightarrow> rehomed g v \<le> loopEnd (sample v) \<Longrightarrow>
   cursor (sample (sampleDumpVoice g i d v)) = rehomed g v"
  by (simp add: sampleDumpVoice_def Let_def rehomed_def)

lemma handleMessage_SampleDump:
  "c < length (workletProcessorChannels p) \<Longrightarrow>
   handleMessage g \<lparr>messageChannel = c, messageData = SampleDumpData i d\<rparr> p =
     Some (p\<lparr>workletDumpedSamplesList := (workletDumpedSamplesList p)(i \<mapsto> d),
             voiceObjects := forEachVoice (sampleDumpVoice g i d)
                (voices (workletProcessorChannels p ! c)) (voiceObjects p)\<rparr>)"
  by (simp add: handleMessage_def Let_def)

lemma handleMessage_None:
  "\<not> c < length (workletProcessorChannels p) \<Longrightarrow>
   handleMessage g \<lparr>messageChannel = c, messageData = d\<rparr> p = None"
  by (simp add: handleMessage_def Let_def)

text \<open>
  Claim C2, amended.  After a \<open>sampleDump(id, frames)\<close> for a channel, the store holds
  the frames and every voice in that channel's list with that sample id has its \<open>end\<close>
  set from the length of the frames and its cursor rehomed from
  \<open>playbackStep * sampleRate * (now - startTime)\<close>: a voice that does not loop keeps that
  cursor and is marked finished when it is at or beyond \<open>end\<close> (so the cursor is below
  \<open>end\<close> or the voice is finished; the cursor is not clamped); a looping voice whose
  cursor exceeds \<open>loopEnd\<close> gets \<open>(cursor mod (loopEnd - loopStart)) + loopStart - 1\<close>,
  which for a non-negative cursor and a loop of positive length lies from \<open>loopStart - 1\<close>
  up to, not including, \<open>loopEnd - 1\<close>; a looping voice whose cursor does not exceed
  \<open>loopEnd\<close> keeps it.
\<close>

theorem sampleDump_rehomes:
  assumes "handleMessage g \<lparr>messageChannel = c, messageData = SampleDumpData i d\<rparr> p = Some p'"
    and "r \<in> set (voices (workletProcessorChannels p ! c))"
    and "sampleID (sample (voiceObjects p r)) = i"
  shows "workletDumpedSamplesList p' i = Some d
     \<and> sampleEnd (sample (voiceObjects p' r)) =
         real_of_int (int (length d) - 1 + generators (voiceObjects p r) ! endAddrOffset
            + generators (voiceObjects p r) ! endAddrsCoarseOffset * 32768)
     \<and> (loopingMode (sample (voiceObjects p r)) = 0 \<longrightarrow>
          cursor (sample (voiceObjects p' r)) = rehomed g (voiceObjects p r)
          \<and> (finished (voiceObjects p' r) \<longleftrightarrow>
               finished (voiceObjects p r)
               \<or> rehomed g (voiceObjects p r) \<ge> sampleEnd (sample (voiceObjects p' r)))
          \<and> (cursor (sample (voiceObjects p' r)) < sampleEnd (sample (voiceObjects p' r))
               \<or> finished (voiceObjects p' r)))
     \<and> (loopingMode (sample (voiceObjects p r)) \<noteq> 0
          \<and> rehomed g (voiceObjects p r) > loopEnd (sample (voiceObjects p r)) \<longrightarrow>
          cursor (sample (voiceObjects p' r)) =
            jsRem (rehomed g (voiceObjects p r))
              (loopEnd (sample (voiceObjects p r)) - loopStart (sample (voiceObjects p r)))
            + loopStart (sample (voiceObjects p r)) - 1
          \<and> (0 \<le> rehomed g (voiceObjects p r)
               \<and> loopStart (sample (voiceObjects p r)) < loopEnd (sample (voiceObjects p r)) \<longrightarrow>
               loopStart (sample (voiceObjects p r)) - 1 \<le> cursor (sample (voiceObjects p' r))
               \<and> cursor (sample (voiceObjects p' r)) < loopEnd (sample (voiceObjects p r)) - 1))
     \<and> (loopingMode (sample (voiceObjects p r)) \<noteq> 0
          \<and> rehomed g (voiceObjects p r) \<le> loopEnd (sample (voiceObjects p r)) \<longrightarrow>
          cursor (sample (voiceObjects p' r)) = rehomed g (voiceObjects p r))"
proof -
  let ?v = "voiceObjects p r"
  have c: "c < length (workletProcessorChannels p)"
    using assms(1) handleMessage_None [of c p g] by (cases "c < length (workletProcessorChannels p)") auto
  from assms(1) handleMessage_SampleDump [OF c, of g i d]
  have p': "p' = p\<lparr>workletDumpedSamplesList := (workletDumpedSamplesList p)(i \<mapsto> d),
             voiceObjects := forEachVoice (sampleDumpVoice g i d)
                (voices (workletProcessorChannels p ! c)) (voiceObjects p)\<rparr>"
    by simp
  have v': "voiceObjects p' r = sampleDumpVoice g i d ?v"
    using assms(2) by (simp add: p' forEachVoice_idem [OF sampleDumpVoice_idem])
  have s: "workletDumpedSamplesList p' i = Some d" by (simp add: p')
  note e = sampleDumpVoice_end [OF assms(3), of g d]
  have n: "loopingMode (sample ?v) = 0 \<Longrightarrow>
          cursor (sample (voiceObjects p' r)) = rehomed g ?v
          \<and> (finished (voiceObjects p' r) \<longleftrightarrow>
               finished ?v \<or> rehomed g ?v \<ge> sampleEnd (sample (voiceObjects p' r)))
          \<and> (cursor (sample (voiceObjects p' r)) < sampleEnd (sample (voiceObjects p' r))
               \<or> finished (voiceObjects p' r))"
    using sampleDumpVoice_noloop [OF assms(3), of g d] unfolding v' by auto
  have w: "loopingMode (sample ?v) \<noteq> 0 \<Longrightarrow> rehomed g ?v > loopEnd (sample ?v) \<Longrightarrow>
          cursor (sample (voiceObjects p' r)) =
            jsRem (rehomed g ?v) (loopEnd (sample ?v) - loopStart (sample ?v))
            + loopStart (sample ?v) - 1"
    using sampleDumpVoice_wrap [OF assms(3), of g d] unfolding v' by simp
  have b: "loopingMode (sample ?v) \<noteq> 0 \<Longrightarrow> rehomed g ?v > loopEnd (sample ?v) \<Longrightarrow>
          0 \<le> rehomed g ?v \<Longrightarrow> loopStart (sample ?v) < loopEnd (sample ?v) \<Longrightarrow>
          loopStart (sample ?v) - 1 \<le> cursor (sample (voiceObjects p' r))
          \<and> cursor (sample (voiceObjects p' r)) < loopEnd (sample ?v) - 1"
  proof -
    assume a: "loopingMode (sample ?v) \<noteq> 0" "rehomed g ?v > loopEnd (sample ?v)"
      "0 \<le> rehomed g ?v" "loopStart (sample ?v) < loopEnd (sample ?v)"
    from a(4) have "0 < loopEnd (sample ?v) - loopStart (sample ?v)" by simp
    from jsRem_range [OF a(3) this] w [OF a(1,2)] show ?thesis by linarith
  qed
  have k: "loopingMode (sample ?v) \<noteq> 0 \<Longrightarrow> rehomed g ?v \<le> loopEnd (sample ?v) \<Longrightarrow>
          cursor (sample (voiceObjects p' r)) = rehomed g ?v"
    using sampleDumpVoice_keep [OF assms(3), of g d] unfolding v' by simp
  from s e n w b k show ?thesis unfolding v' by blast
qed

lemma dumpExample_eq:
  "dumpExample = Some ((exampleProcessor (\<lambda>_. exampleVoice) [exampleChannel [0]])
     \<lparr>workletDumpedSamplesList := [0 \<mapsto> [0, 0, 0]],
      voiceObjects := (\<lambda>_. exampleVoice)(0 := sampleDumpVoice (exampleGlobals 1) 0 [0, 0, 0] exampleVoice)\<rparr>)"
  unfolding dumpExample_def
  by (subst handleMessage_SampleDump) (simp_all add: exampleProcessor_def exampleChannel_def)

lemma dumpExample_voice:
  "sampleDumpVoice (exampleGlobals 1) 0 [0, 0, 0] exampleVoice =
     exampleVoice\<lparr>sample := (sample exampleVoice)\<lparr>sampleEnd := 2, cursor := 48000\<rparr>,
                  finished := True\<rparr>"
  by (subst sampleDumpVoice_char)
     (simp_all add: exampleVoice_def exampleGlobals_def rehomed_def dumpedEnd_def generatorTypes_defs)

text \<open>
  The single-channel processor handles a dump with the same callback, on its own list.
\<close>

lemma cpHandleMessage_SampleDump:
  "cpVoiceObjects (cpHandleMessage g (SampleDumpData i d) cp) =
     forEachVoice (sampleDumpVoice g i d) (cpVoices cp) (cpVoiceObjects cp)
   \<and> cpDumpedSamplesList (cpHandleMessage g (SampleDumpData i d) cp) i = Some d"
  by (simp add: cpHandleMessage_def)

text \<open>
  Claim C2 as stated fails for a voice that does not loop, started one second before a
  dump of three frames: its cursor is 48000 and its \<open>end\<close> is 2.
\<close>

theorem sampleDump_cursor_beyond_end:
  "dumpExample \<noteq> None
   \<and> 0 \<in> set (voices (workletProcessorChannels (exampleProcessor (\<lambda>_. exampleVoice) [exampleChannel [0]]) ! 0))
   \<and> sampleID (sample exampleVoice) = 0
   \<and> cursor (sample (voiceObjects (the dumpExample) 0)) = 48000
   \<and> sampleEnd (sample (voiceObjects (the dumpExample) 0)) = 2
   \<and> \<not> (cursor (sample (voiceObjects (the dumpExample) 0))
          \<le> sampleEnd (sample (voiceObjects (the dumpExample) 0)))"
  by (simp add: dumpExample_eq dumpExample_voice)
     (simp add: exampleProcessor_def exampleChannel_def exampleVoice_def)

text \<open>The same dump: the store holds the frames and the voice is finished.\<close>

theorem sampleDump_rehomes_witness:
  "workletDumpedSamplesList (the dumpExample) 0 = Some [0, 0, 0]
   \<and> cursor (sample (voiceObjects (the dumpExample) 0)) = 48000
   \<and> finished (voiceObjects (the dumpExample) 0)"
proof -
  let ?p = "exampleProcessor (\<lambda>_. exampleVoice) [exampleChannel [0]]"
  have 1: "handleMessage (exampleGlobals 1)
     \<lparr>messageChannel = 0, messageData = SampleDumpData 0 [0, 0, 0]\<rparr> ?p = Some (the dumpExample)"
    using dumpExample_eq by (simp add: dumpExample_def)
  have 2: "0 \<in> set (voices (workletProcessorChannels ?p ! 0))"
    by (simp add: exampleProcessor_def exampleChannel_def)
  have 3: "sampleID (sample (voiceObjects ?p 0)) = 0"
    by (simp add: exampleProcessor_def exampleVoice_def)
  have 4: "loopingMode (sample (voiceObjects ?p 0)) = 0"
    by (simp add: exampleProcessor_def exampleVoice_def)
  have 5: "rehomed (exampleGlobals 1) (voiceObjects ?p 0) = 48000"
    by (simp add: exampleProcessor_def exampleVoice_def rehomed_def exampleGlobals_def)
  have 6: "generators (voiceObjects ?p 0) ! endAddrOffset = 0"
     "generators (voiceObjects ?p 0) ! endAddrsCoarseOffset = 0"
    by (simp_all add: exampleProcessor_def exampleVoice_def generatorTypes_defs)
  from sampleDump_rehomes [OF 1 2 3] 4 5 6 show ?thesis by simp
qed

subsection \<open>Hold pedal\<close>

lemma computeModulators_releaseStartTime:
  "releaseStartTime (computeModulators g v controllers) = releaseStartTime v"
  by (simp add: computeModulators_def)

lemma fold_noteOff_hold:
  "holdPedal ch \<Longrightarrow>
   fold (noteOffVoice g n) rs (ch, h) =
     (ch\<lparr>sustainedVoices := sustainedVoices ch
          @ filter (\<lambda>r. midiNote (h r) = n \<and> \<not> isInRelease (h r)) rs\<rparr>, h)"
  by (induction rs arbitrary: ch) (auto simp: noteOffVoice_def)

lemma handleMessage_NoteOff:
  "c < length (workletProcessorChannels p) \<Longrightarrow>
   handleMessage g \<lparr>messageChannel = c, messageData = NoteOff n\<rparr> p =
     (case fold (noteOffVoice g n) (voices (workletProcessorChannels p ! c))
             (workletProcessorChannels p ! c, voiceObjects p) of
        (ch1, h1) \<Rightarrow> Some (setChannel c ch1 (p\<lparr>voiceObjects := h1\<rparr>)))"
  by (simp add: handleMessage_def Let_def)

lemma handleMessage_pedal_up:
  "c < length (workletProcessorChannels p) \<Longrightarrow> ccVal < 64 \<Longrightarrow>
   handleMessage g \<lparr>messageChannel = c, messageData = CcChange sustainPedal ccVal\<rparr> p =
     (let ch = workletProcessorChannels p ! c;
          ch2 = ch\<lparr>holdPedal := False, sustainedVoices := [],
                   midiControllers := (midiControllers ch)[sustainPedal := toInt16 ccVal]\<rparr>
      in Some (setChannel c ch2
           (p\<lparr>voiceObjects := forEachVoice (\<lambda>v. computeModulators g v (midiControllers ch2))
                  (voices ch) (forEachVoice (releaseVoice g) (sustainedVoices ch) (voiceObjects p))\<rparr>)))"
  by (simp add: handleMessage_def Let_def)

text \<open>
  Claim C5, amended.  A \<open>noteOff(note)\<close> arriving while the channel's hold pedal is down
  appends every voice of the channel that matches the note and is not in release to
  \<open>sustainedVoices\<close>; the voice stays in \<open>voices\<close>, and no voice is changed.  A
  sustain-pedal controller change with a value below 64 releases every voice in
  \<open>sustainedVoices\<close> (its \<open>releaseStartTime\<close> becomes the later of now and
  \<open>startTime + MIN_NOTE_LENGTH\<close>), empties the list and lifts the pedal.
\<close>

theorem hold_pedal_sustain:
  "(holdPedal (workletProcessorChannels p ! c)
     \<and> handleMessage g \<lparr>messageChannel = c, messageData = NoteOff n\<rparr> p = Some p1 \<longrightarrow>
       voices (workletProcessorChannels p1 ! c) = voices (workletProcessorChannels p ! c)
       \<and> sustainedVoices (workletProcessorChannels p1 ! c) =
           sustainedVoices (workletProcessorChannels p ! c)
           @ filter (\<lambda>r. midiNote (voiceObjects p r) = n \<and> \<not> isInRelease (voiceObjects p r))
               (voices (workletProcessorChannels p ! c))
       \<and> voiceObjects p1 = voiceObjects p)
   \<and> (ccVal < 64
     \<and> handleMessage g \<lparr>messageChannel = c, messageData = CcChange sustainPedal ccVal\<rparr> p = Some p2 \<longrightarrow>
       sustainedVoices (workletProcessorChannels p2 ! c) = []
       \<and> \<not> holdPedal (workletProcessorChannels p2 ! c)
       \<and> (\<forall>r \<in> set (sustainedVoices (workletProcessorChannels p ! c)).
             releaseStartTime (voiceObjects p2 r) =
               Some (max (currentTime g) (startTime (voiceObjects p r) + MIN_NOTE_LENGTH))))"
proof (intro conjI impI)
  assume a: "holdPedal (workletProcessorChannels p ! c)
     \<and> handleMessage g \<lparr>messageChannel = c, messageData = NoteOff n\<rparr> p = Some p1"
  then have c: "c < length (workletProcessorChannels p)"
    using handleMessage_None [of c p g] by (cases "c < length (workletProcessorChannels p)") auto
  from a have hp: "holdPedal (workletProcessorChannels p ! c)"
    and hm: "handleMessage g \<lparr>messageChannel = c, messageData = NoteOff n\<rparr> p = Some p1"
    by simp_all
  from hm have p1: "p1 = setChannel c
      ((workletProcessorChannels p ! c)\<lparr>sustainedVoices := sustainedVoices (workletProcessorChannels p ! c)
          @ filter (\<lambda>r. midiNote (voiceObjects p r) = n \<and> \<not> isInRelease (voiceObjects p r))
              (voices (workletProcessorChannels p ! c))\<rparr>) (p\<lparr>voiceObjects := voiceObjects p\<rparr>)"
    by (simp add: handleMessage_NoteOff [OF c] fold_noteOff_hold [OF hp])
  show "voices (workletProcessorChannels p1 ! c) = voices (workletProcessorChannels p ! c)"
    using c by (simp add: p1 setChannel_def)
  show "sustainedVoices (workletProcessorChannels p1 ! c) =
           sustainedVoices (workletProcessorChannels p ! c)
           @ filter (\<lambda>r. midiNote (voiceObjects p r) = n \<and> \<not> isInRelease (voiceObjects p r))
               (voices (workletProcessorChannels p ! c))"
    using c by (simp add: p1 setChannel_def)
  show "voiceObjects p1 = voiceObjects p"
    by (simp add: p1 setChannel_def)
next
  assume a: "ccVal < 64
     \<and> handleMessage g \<lparr>messageChannel = c, messageData = CcChange sustainPedal ccVal\<rparr> p = Some p2"
  then have c: "c < length (workletProcessorChannels p)"
    using handleMessage_None [of c p g] by (cases "c < length (workletProcessorChannels p)") auto
  let ?ch = "workletProcessorChannels p ! c"
  let ?ch2 = "?ch\<lparr>holdPedal := False, sustainedVoices := [],
                   midiControllers := (midiControllers ?ch)[sustainPedal := toInt16 ccVal]\<rparr>"
  let ?h = "forEachVoice (\<lambda>v. computeModulators g v (midiControllers ?ch2))
                  (voices ?ch) (forEachVoice (releaseVoice g) (sustainedVoices ?ch) (voiceObjects p))"
  from a have lt: "ccVal < 64"
    and hm: "handleMessage g \<lparr>messageChannel = c, messageData = CcChange sustainPedal ccVal\<rparr> p = Some p2"
    by simp_all
  from hm have p2: "p2 = setChannel c ?ch2 (p\<lparr>voiceObjects := ?h\<rparr>)"
    by (simp add: handleMessage_pedal_up [OF c lt] Let_def)
  show "sustainedVoices (workletProcessorChannels p2 ! c) = []"
    using c by (simp add: p2 setChannel_def)
  show "\<not> holdPedal (workletProcessorChannels p2 ! c)"
    using c by (simp add: p2 setChannel_def)
  show "\<forall>r \<in> set (sustainedVoices ?ch).
             releaseStartTime (voiceObjects p2 r) =
               Some (max (currentTime g) (startTime (voiceObjects p r) + MIN_NOTE_LENGTH))"
  proof
    fix r assume r: "r \<in> set (sustainedVoices ?ch)"
    have "releaseStartTime (voiceObjects p2 r) = releaseStartTime (?h r)"
      by (simp add: p2 setChannel_def)
    also have "\<dots> = releaseStartTime (forEachVoice (releaseVoice g) (sustainedVoices ?ch) (voiceObjects p) r)"
      by (rule forEachVoice_invariant) (rule computeModulators_releaseStartTime)
    also have "\<dots> = releaseStartTime (releaseVoice g (voiceObjects p r))"
      using r by (simp add: forEachVoice_idem [OF releaseVoice_idem])
    finally show "releaseStartTime (voiceObjects p2 r) =
               Some (max (currentTime g) (startTime (voiceObjects p r) + MIN_NOTE_LENGTH))"
      by (simp add: releaseVoice_releaseStartTime)
  qed
qed

lemma noteOffExample_eq:
  "noteOffExample = Some (heldExample\<lparr>workletProcessorChannels :=
      [(exampleChannel [0])\<lparr>holdPedal := True, sustainedVoices := [0]\<rparr>]\<rparr>)"
  unfolding noteOffExample_def
  apply (subst handleMessage_NoteOff)
   apply (simp add: heldExample_def exampleProcessor_def)
  apply (subst fold_noteOff_hold)
   apply (simp add: heldExample_def exampleProcessor_def exampleChannel_def)
  apply (simp add: heldExample_def exampleProcessor_def exampleChannel_def exampleVoice_def
      setChannel_def)
  done

text \<open>
  Claim C5 as stated fails: after a note-off under the pedal the voice is in
  \<open>sustainedVoices\<close> and still in \<open>voices\<close>.
\<close>

theorem sustained_voice_stays_in_voices:
  "holdPedal (workletProcessorChannels heldExample ! 0)
   \<and> 0 \<in> set (voices (workletProcessorChannels heldExample ! 0))
   \<and> midiNote (voiceObjects heldExample 0) = 60
   \<and> \<not> isInRelease (voiceObjects heldExample 0)
   \<and> noteOffExample \<noteq> None
   \<and> 0 \<in> set (sustainedVoices (workletProcessorChannels (the noteOffExample) ! 0))
   \<and> 0 \<in> set (voices (workletProcessorChannels (the noteOffExample) ! 0))"
  by (simp add: noteOffExample_eq)
     (simp add: heldExample_def exampleProcessor_def exampleChannel_def exampleVoice_def)

text \<open>The same note-off: both lists hold the voice.\<close>

theorem hold_pedal_sustain_witness:
  "sustainedVoices (workletProcessorChannels (the noteOffExample) ! 0) = [0]
   \<and> voices (workletProcessorChannels (the noteOffExample) ! 0) = [0]"
proof -
  have 1: "holdPedal (workletProcessorChannels heldExample ! 0)
     \<and> handleMessage (exampleGlobals 1) \<lparr>messageChannel = 0, messageData = NoteOff 60\<rparr> heldExample
         = Some (the noteOffExample)"
    using noteOffExample_eq
    by (simp add: noteOffExample_def) (simp add: heldExample_def exampleProcessor_def exampleChannel_def)
  from hold_pedal_sustain [of heldExample 0 "exampleGlobals 1" 60 "the noteOffExample" 0 heldExample] 1
  show ?thesis
    by (simp add: heldExample_def exampleProcessor_def exampleChannel_def exampleVoice_def)
qed

subsection \<open>Mod LFO\<close>

lemma pitchCents_add:
  "pitchCents g channel voice x modEnv = pitchCents g channel voice 0 modEnv + x"
  by (simp add: pitchCents_def Let_def)

lemma modLfo_eq:
  "modLfo g voice (cents, lowpassCents) =
     (let lfo = (if modLfoGate voice then modLfoValueOf g voice else 0)
      in (cents + lfo * real_of_int (modulatedGenerators voice ! modLfoToPitch),
          lfo * real_of_int (modulatedGenerators voice ! modLfoToVolume),
          lowpassCents + lfo * real_of_int (modulatedGenerators voice ! modLfoToFilterFc)))"
  by (simp add: modLfo_def modLfoGate_def modLfoValueOf_def Let_def)

text \<open>
  Claim C8, amended.  For every rendered voice (its sample data in the store, its
  attenuation not above 2500, an output with a plane), the mod LFO value is computed from
  \<open>delayModLFO\<close> and \<open>freqModLFO\<close> and counts when \<open>modLfoToPitch\<close>, \<open>modLfoToFilterFc\<close>
  and \<open>modLfoToVolume\<close> have a sum above zero; for every other voice, also one with a
  nonzero depth, it counts as zero.  That value times \<open>modLfoToPitch\<close> is added to the
  cents truncated into the voice's tuning, that value times \<open>modLfoToVolume\<close> is the
  centibels handed to \<open>applyVolumeEnvelope\<close>, and that value times \<open>modLfoToFilterFc\<close> is
  added to the cutoff cents handed to \<open>applyLowpassFilter\<close>.
\<close>

theorem modLfo_contribution:
  assumes "samples (sampleID (sample voice0)) = Some smpData"
    and "\<not> modulatedGenerators voice0 ! initialAttenuation > 2500"
  shows "renderVoice g samples channel voice0 (Some (plane # planes), reverbOutput, chorusOutput) =
     (let voice = releaseChecked g voice0;
          mg = modulatedGenerators voice;
          lfo = (if modLfoGate voice then modLfoValueOf g voice else 0);
          (modEnv, voice2) = getModEnvValue g voice (currentTime g);
          voice3 = retuned (toInt32 (jsTrunc (pitchCents g channel voice 0 modEnv
                      + lfo * real_of_int (mg ! modLfoToPitch)))) voice2;
          (voice4, buffer1) = getOscillatorData g voice3 smpData (replicate (length plane) 0);
          (voice5, buffer2) = applyLowpassFilter g voice4 buffer1
             (real_of_int (mg ! initialFilterFc) + lfo * real_of_int (mg ! modLfoToFilterFc)
                + modEnv * real_of_int (mg ! modEnvToFilterFc));
          (voice6, buffer3) = applyVolumeEnvelope g voice5 buffer2 (currentTime g)
             (lfo * real_of_int (mg ! modLfoToVolume)) (1 / globalSampleRate g);
          (output1, reverb1, chorus1) =
             panVoice g (real_of_int (max (- 500) (min 500 (modulatedGenerators voice3 ! pan)) + 500) / 1000)
               buffer3 (plane # planes)
               reverbOutput (modulatedGenerators voice6 ! reverbEffectsSend)
               chorusOutput (modulatedGenerators voice6 ! chorusEffectsSend)
      in Some (voice6, Some output1, reverb1, chorus1))"
proof -
  define voice where "voice = releaseChecked g voice0"
  define lfo where "lfo = (if modLfoGate voice then modLfoValueOf g voice else 0)"
  have mg: "modulatedGenerators voice = modulatedGenerators voice0"
    by (simp add: voice_def releaseChecked_def)
  have att: "\<not> modulatedGenerators voice ! initialAttenuation > 2500"
    using assms(2) by (simp add: mg)
  have m: "modLfo g voice (c, l) =
     (c + lfo * real_of_int (modulatedGenerators voice ! modLfoToPitch),
      lfo * real_of_int (modulatedGenerators voice ! modLfoToVolume),
      l + lfo * real_of_int (modulatedGenerators voice ! modLfoToFilterFc))" for c l
    by (simp add: modLfo_eq lfo_def Let_def)
  have p: "pitchCents g channel voice 0 modEnv
             + lfo * real_of_int (modulatedGenerators voice ! modLfoToPitch)
           = pitchCents g channel voice
               (lfo * real_of_int (modulatedGenerators voice ! modLfoToPitch)) modEnv" for modEnv
    by (rule pitchCents_add [symmetric])
  show ?thesis
    unfolding renderVoice_def
    apply (simp only: prod.case assms(1) option.case list.case
        releaseChecked_def [symmetric] voice_def [symmetric])
    apply (simp only: Let_def att if_False m prod.case lfo_def [symmetric] p)
    apply (simp only: pitchCents_def retuned_def Let_def)
    done
qed

lemma probe_values:
  "currentTime probeGlobals = 1" "globalSampleRate probeGlobals = 48000"
  "getLFOValue probeGlobals a b c = 1 / 2"
  "timecentsToSeconds probeGlobals i = 0" "absCentsToHz probeGlobals i = 8"
  "getModEnvValue probeGlobals v t = (0, v)"
  "getOscillatorData probeGlobals v d buf = (v, buf)"
  "applyLowpassFilter probeGlobals v buf x = (v\<lparr>voiceFilter := (voiceFilter v)\<lparr>cutoffCents := x\<rparr>\<rparr>, buf)"
  "applyVolumeEnvelope probeGlobals v buf t x dt = (v\<lparr>currentAttenuationDb := x\<rparr>, buf)"
  "panVoice probeGlobals pn buf out rv rs ch cs = (out, rv, ch)"
  by (simp_all add: probeGlobals_def exampleGlobals_def)

lemma exampleChannel_tuning:
  "midiControllers (exampleChannel vs) ! (NON_CC_INDEX_OFFSET + channelTuning) = 0"
  "midiControllers (exampleChannel vs) ! (NON_CC_INDEX_OFFSET + channelTranspose) = 0"
  "vibDepth (channelVibrato (exampleChannel vs)) = 0"
  by (simp_all add: exampleChannel_def resetArray_def CONTROLLER_TABLE_SIZE_def
      NON_CC_INDEX_OFFSET_def channelTuning_def channelTranspose_def mainVolume_def
      expressionController_def panController_def releaseTime_def brightness_def pitchWheel_def
      pitchWheelRange_def channelPressure_def)

text \<open>
  Claim C8 as stated fails for a voice whose only nonzero depth is \<open>modLfoToPitch = -50\<close>:
  with an LFO value of one half the claimed contribution to the pitch is \<open>-25\<close> cents,
  and the rendered voice keeps its tuning of 0 cents.
\<close>

theorem modLfo_skipped_for_negative_depth:
  "modulatedGenerators negativeDepthVoice ! modLfoToPitch \<noteq> 0
   \<and> modLfoValueOf probeGlobals negativeDepthVoice
        * real_of_int (modulatedGenerators negativeDepthVoice ! modLfoToPitch) = - 25
   \<and> rendered negativeDepthVoice =
        Some (negativeDepthVoice\<lparr>voiceFilter := (voiceFilter negativeDepthVoice)\<lparr>cutoffCents := 0\<rparr>,
                currentAttenuationDb := 0\<rparr>, Some [[0, 0], [0, 0]], None, None)
   \<and> currentTuningCents negativeDepthVoice = 0"
proof -
  have 1: "modulatedGenerators negativeDepthVoice ! modLfoToPitch = - 50"
    by (simp add: negativeDepthVoice_def generatorTypes_defs)
  have 2: "modLfoValueOf probeGlobals negativeDepthVoice = 1 / 2"
    by (simp add: modLfoValueOf_def probe_values)
  have g: "modulatedGenerators negativeDepthVoice ! i = (if i = modLfoToPitch then - 50 else 0)"
    if "i < 60" for i
    using that by (simp add: negativeDepthVoice_def generatorTypes_defs)
  have i: "initialAttenuation < 60" "fineTune < 60" "coarseTune < 60" "scaleTuning < 60"
    "vibLfoToPitch < 60" "initialFilterFc < 60" "modLfoToPitch < 60" "modLfoToVolume < 60"
    "modLfoToFilterFc < 60" "modEnvToPitch < 60" "modEnvToFilterFc < 60" "pan < 60"
    "reverbEffectsSend < 60" "chorusEffectsSend < 60"
    by (simp_all add: generatorTypes_defs)
  have n: "initialAttenuation \<noteq> modLfoToPitch" "fineTune \<noteq> modLfoToPitch"
    "coarseTune \<noteq> modLfoToPitch" "scaleTuning \<noteq> modLfoToPitch" "vibLfoToPitch \<noteq> modLfoToPitch"
    "initialFilterFc \<noteq> modLfoToPitch" "modLfoToVolume \<noteq> modLfoToPitch"
    "modLfoToFilterFc \<noteq> modLfoToPitch" "modEnvToPitch \<noteq> modLfoToPitch"
    "modEnvToFilterFc \<noteq> modLfoToPitch" "pan \<noteq> modLfoToPitch"
    by (simp_all add: generatorTypes_defs)
  have v: "sampleID (sample negativeDepthVoice) = 0" "\<not> isInRelease negativeDepthVoice"
    "releaseStartTime negativeDepthVoice = None" "currentTuningCents negativeDepthVoice = 0"
    "targetKey negativeDepthVoice = 60" "rootKey (sample negativeDepthVoice) = 60"
    by (simp_all add: negativeDepthVoice_def exampleVoice_def)
  have m: "modLfo probeGlobals negativeDepthVoice (c, l) = (c, 0, l)" for c l
    by (simp add: modLfo_def Let_def g i n)
  have 3: "rendered negativeDepthVoice =
        Some (negativeDepthVoice\<lparr>voiceFilter := (voiceFilter negativeDepthVoice)\<lparr>cutoffCents := 0\<rparr>,
                currentAttenuationDb := 0\<rparr>, Some [[0, 0], [0, 0]], None, None)"
    unfolding rendered_def renderVoice_def
    by (simp add: Let_def v releaseReached_def g i n m probe_values exampleChannel_tuning
        toInt32_def jsTrunc_def)
  from 1 2 3 v(4) show ?thesis by simp
qed

text \<open>
  Depths 50, 20 and 30 for pitch, volume and filter with an LFO value of one half: the
  rendered voice is tuned to 25 cents, its envelope was handed 10 centibels and its filter
  a cutoff of 15 cents.
\<close>

theorem modLfo_contribution_witness:
  "rendered lfoVoice =
     Some (lfoVoice\<lparr>currentTuningCents := 25, currentTuningCalculated := 2 powr (25 / 1200),
             voiceFilter := (voiceFilter lfoVoice)\<lparr>cutoffCents := 15\<rparr>,
             currentAttenuationDb := 10\<rparr>, Some [[0, 0], [0, 0]], None, None)"
proof -
  have s: "[0 \<mapsto> [0, 0, 0::real]] (sampleID (sample lfoVoice)) = Some [0, 0, 0]"
    by (simp add: lfoVoice_def exampleVoice_def)
  have g: "modulatedGenerators lfoVoice ! i =
      (if i = modLfoToFilterFc then 30 else if i = modLfoToVolume then 20
       else if i = modLfoToPitch then 50 else 0)"
    if "i < 60" for i
    using that by (simp add: lfoVoice_def generatorTypes_defs)
  have i: "initialAttenuation < 60" "fineTune < 60" "coarseTune < 60" "scaleTuning < 60"
    "vibLfoToPitch < 60" "initialFilterFc < 60" "modLfoToPitch < 60" "modLfoToVolume < 60"
    "modLfoToFilterFc < 60" "modEnvToPitch < 60" "modEnvToFilterFc < 60" "pan < 60"
    "reverbEffectsSend < 60" "chorusEffectsSend < 60"
    by (simp_all add: generatorTypes_defs)
  have a: "\<not> modulatedGenerators lfoVoice ! initialAttenuation > 2500"
    by (simp add: g i generatorTypes_defs)
  have r: "releaseChecked probeGlobals lfoVoice = lfoVoice"
    by (simp add: releaseChecked_def releaseReached_def lfoVoice_def exampleVoice_def)
  have d: "modulatedGenerators lfoVoice ! modLfoToPitch = 50"
    "modulatedGenerators lfoVoice ! modLfoToVolume = 20"
    "modulatedGenerators lfoVoice ! modLfoToFilterFc = 30"
    "modulatedGenerators lfoVoice ! initialFilterFc = 0"
    "modulatedGenerators lfoVoice ! modEnvToFilterFc = 0"
    "modulatedGenerators lfoVoice ! pan = 0"
    by (simp_all add: g i generatorTypes_defs)
  have gate: "modLfoGate lfoVoice" by (simp add: modLfoGate_def d)
  have l: "modLfoValueOf probeGlobals lfoVoice = 1 / 2"
    by (simp add: modLfoValueOf_def probe_values)
  have p: "pitchCents probeGlobals (exampleChannel [0]) lfoVoice 0 0 = 0"
    by (simp add: pitchCents_def Let_def g i generatorTypes_defs exampleChannel_tuning)
  have t: "toInt32 (jsTrunc 25) = 25" by (simp add: toInt32_def jsTrunc_def)
  have c: "currentTuningCents lfoVoice = 0" by (simp add: lfoVoice_def exampleVoice_def)
  from modLfo_contribution [where samples = "[0 \<mapsto> [0, 0, 0]]" and ?voice0.0 = lfoVoice
      and smpData = "[0, 0, 0]" and g = probeGlobals and channel = "exampleChannel [0]"
      and plane = "[0, 0]" and planes = "[[0, 0]]" and reverbOutput = None
      and chorusOutput = None, OF s a]
  show ?thesis
    by (simp add: rendered_def r gate l p d t c probe_values retuned_def)
qed

subsection \<open>Missing sample data\<close>

lemma renderVoice_missing:
  "samples (sampleID (sample voice)) = None \<Longrightarrow>
   renderVoice g samples channel voice targets = Some (voice, targets)"
  by (simp add: renderVoice_def split: prod.splits)

lemma writeBack_outputAt: "writeBack outputs k (outputAt outputs k) = outputs"
  by (simp add: writeBack_def outputAt_def split: option.splits)

lemma renderVoices_missing:
  assumes "renderVoices g samples channel k rs (h, outputs, kept) = Some (h', outputs', kept')"
    and "samples (sampleID (sample (h r))) = None"
  shows "h' r = h r \<and> set kept \<subseteq> set kept'
     \<and> (r \<in> set rs \<and> \<not> finished (h r) \<longrightarrow> r \<in> set kept')"
  using assms
proof (induction rs arbitrary: h outputs kept)
  case Nil
  then show ?case by simp
next
  case (Cons a rs)
  from Cons.prems(1) obtain v t1 t2 t3 where
    rv: "renderVoice g samples channel (h a)
           (outputAt outputs k, outputAt outputs (Some 0), outputAt outputs (Some 1))
         = Some (v, t1, t2, t3)"
    and rest: "renderVoices g samples channel k rs
           (h(a := v), writeBack (writeBack (writeBack outputs k t1) (Some 0) t2) (Some 1) t3,
            if \<not> finished v then kept @ [a] else kept) = Some (h', outputs', kept')"
    by (auto split: option.splits)
  have ra: "a = r \<Longrightarrow> v = h r"
    using rv renderVoice_missing [where samples = samples and voice = "h r" and g = g
        and channel = channel] Cons.prems(2) by simp
  have hr: "(h(a := v)) r = h r" using ra by auto
  from Cons.prems(2) hr have m: "samples (sampleID (sample ((h(a := v)) r))) = None" by simp
  from Cons.IH [OF rest m] hr
  have ih: "h' r = h r"
    "set (if \<not> finished v then kept @ [a] else kept) \<subseteq> set kept'"
    "r \<in> set rs \<and> \<not> finished (h r) \<longrightarrow> r \<in> set kept'"
    by simp_all
  from ih(2) have k: "set kept \<subseteq> set kept'" by (auto split: if_splits)
  have "a = r \<Longrightarrow> \<not> finished (h r) \<Longrightarrow> r \<in> set kept'"
    using ih(2) ra by (auto split: if_splits)
  with ih k show ?case by auto
qed

lemma processChannels_missing:
  assumes "processChannels g samples n idx chs (h, outputs, tot) = Some (chs', h', outputs', tot')"
    and "samples (sampleID (sample (h r))) = None"
  shows "h' r = h r \<and> length chs' = length chs
     \<and> (\<forall>c < length chs. r \<in> set (voices (chs ! c)) \<and> \<not> finished (h r)
            \<longrightarrow> r \<in> set (voices (chs' ! c)))"
  using assms
proof (induction chs arbitrary: idx h outputs tot chs')
  case Nil
  then show ?case by simp
next
  case (Cons ch chs)
  show ?case
  proof (cases "length (voices ch) < 1 \<or> isMuted ch")
    case True
    with Cons.prems(1) obtain rest1 where
      rest: "processChannels g samples n (Suc idx) chs (h, outputs, tot) = Some (rest1, h', outputs', tot')"
      and chs': "chs' = ch # rest1"
      by (auto split: option.splits)
    from Cons.IH [OF rest Cons.prems(2)] chs' show ?thesis
      by (auto simp: nth_Cons split: nat.splits)
  next
    case False
    with Cons.prems(1) obtain h1 outputs1 kept rest1 where
      rv: "renderVoices g samples ch (if n = 0 then None else Some (idx mod n + 2)) (voices ch)
             (h, outputs, []) = Some (h1, outputs1, kept)"
      and rest: "processChannels g samples n (Suc idx) chs (h1, outputs1, tot + int (length (voices ch)))
                   = Some (rest1, h', outputs', tot')"
      and chs': "chs' = ch\<lparr>voices := kept\<rparr> # rest1"
      by (auto simp: Let_def split: option.splits)
    from renderVoices_missing [OF rv Cons.prems(2)]
    have 1: "h1 r = h r" "r \<in> set (voices ch) \<and> \<not> finished (h r) \<longrightarrow> r \<in> set kept"
      by simp_all
    from Cons.prems(2) 1(1) have m: "samples (sampleID (sample (h1 r))) = None" by simp
    from Cons.IH [OF rest m] 1 chs' show ?thesis
      by (auto simp: nth_Cons split: nat.splits)
  qed
qed

text \<open>The single-channel processor skips a voice without sample data in the same way.\<close>

lemma cpRenderVoice_missing:
  "cpDumpedSamplesList cp (sampleID (sample voice)) = None \<Longrightarrow>
   cpRenderVoice g cp voice targets = Some (voice, targets)"
  by (simp add: cpRenderVoice_def renderVoice_missing)

text \<open>
  Claim C9.  If the sample store has no entry for a voice's sample id, rendering the
  voice returns it and the three output targets unchanged; a whole block leaves the voice
  object unchanged and, unless the voice is already finished, in its channel's list; and
  a sample dump for that id then puts the entry in the store.
\<close>

theorem missing_sample_is_skipped:
  assumes "workletDumpedSamplesList p (sampleID (sample (voiceObjects p r))) = None"
  shows "renderVoice g (workletDumpedSamplesList p) channel (voiceObjects p r) targets
           = Some (voiceObjects p r, targets)
     \<and> (\<forall>p' outputs'. process g outputs p = Some (p', outputs') \<longrightarrow>
           voiceObjects p' r = voiceObjects p r
           \<and> (\<forall>c < length (workletProcessorChannels p).
                 r \<in> set (voices (workletProcessorChannels p ! c)) \<and> \<not> finished (voiceObjects p r)
                 \<longrightarrow> r \<in> set (voices (workletProcessorChannels p' ! c))))
     \<and> (\<forall>c d. c < length (workletProcessorChannels p) \<longrightarrow>
           (\<exists>p'. handleMessage g \<lparr>messageChannel = c,
                    messageData = SampleDumpData (sampleID (sample (voiceObjects p r))) d\<rparr> p = Some p'
                 \<and> workletDumpedSamplesList p' (sampleID (sample (voiceObjects p r))) = Some d))"
proof (intro conjI allI impI)
  show "renderVoice g (workletDumpedSamplesList p) channel (voiceObjects p r) targets
           = Some (voiceObjects p r, targets)"
    using assms by (rule renderVoice_missing)
next
  fix p' outputs'
  assume pr: "process g outputs p = Some (p', outputs')"
  then obtain chs h tot where
    pc: "processChannels g (workletDumpedSamplesList p) (outputsAmount p) 0
           (workletProcessorChannels p) (voiceObjects p, outputs, 0) = Some (chs, h, outputs', tot)"
    and p': "voiceObjects p' = h" "workletProcessorChannels p' = chs"
    by (auto simp: process_def Let_def updateVoicesAmount_def split: option.splits if_splits)
  from processChannels_missing [OF pc assms] p'
  show "voiceObjects p' r = voiceObjects p r" by simp
  fix c
  assume "c < length (workletProcessorChannels p)"
    and "r \<in> set (voices (workletProcessorChannels p ! c)) \<and> \<not> finished (voiceObjects p r)"
  with processChannels_missing [OF pc assms] p'
  show "r \<in> set (voices (workletProcessorChannels p' ! c))" by simp
next
  fix c d
  assume "c < length (workletProcessorChannels p)"
  then show "\<exists>p'. handleMessage g \<lparr>messageChannel = c,
                    messageData = SampleDumpData (sampleID (sample (voiceObjects p r))) d\<rparr> p = Some p'
                 \<and> workletDumpedSamplesList p' (sampleID (sample (voiceObjects p r))) = Some d"
    by (simp add: handleMessage_SampleDump)
qed

lemma silentExample_eq:
  "silentExample = Some (exampleProcessor (\<lambda>_. exampleVoice) [exampleChannel [0]], [])"
proof -
  have r: "renderVoice (exampleGlobals 1) Map.empty (exampleChannel [0]) exampleVoice
          (None, None, None) = Some (exampleVoice, None, None, None)"
    by (rule renderVoice_missing) simp
  have c: "voices (exampleChannel [0]) = [0]" "\<not> isMuted (exampleChannel [0])"
    "(exampleChannel [0])\<lparr>voices := [0]\<rparr> = exampleChannel [0]"
    by (simp_all add: exampleChannel_def)
  have f: "\<not> finished exampleVoice" by (simp add: exampleVoice_def)
  have u: "(\<lambda>_. exampleVoice)(0 := exampleVoice) = (\<lambda>_. exampleVoice)" by auto
  show ?thesis
    by (simp add: silentExample_def process_def exampleProcessor_def allVoices_def writeBack_def
        outputAt_def r c f u)
qed

text \<open>A block over one voice with an empty store: the voice is unchanged and still listed.\<close>

theorem missing_sample_is_skipped_witness:
  "silentExample \<noteq> None
   \<and> voiceObjects (fst (the silentExample)) 0 = exampleVoice
   \<and> 0 \<in> set (voices (workletProcessorChannels (fst (the silentExample)) ! 0))"
proof -
  let ?p = "exampleProcessor (\<lambda>_. exampleVoice) [exampleChannel [0]]"
  have 1: "workletDumpedSamplesList ?p (sampleID (sample (voiceObjects ?p 0))) = None"
    by (simp add: exampleProcessor_def)
  have 2: "process (exampleGlobals 1) [] ?p = Some (fst (the silentExample), snd (the silentExample))"
    using silentExample_eq by (simp add: silentExample_def)
  have 3: "0 < length (workletProcessorChannels ?p)"
    "0 \<in> set (voices (workletProcessorChannels ?p ! 0))" "\<not> finished (voiceObjects ?p 0)"
    by (simp_all add: exampleProcessor_def exampleChannel_def exampleVoice_def)
  from missing_sample_is_skipped [OF 1, of "exampleGlobals 1" "exampleChannel [0]" "(None, None, None)" "[]"]
  have "\<forall>p' outputs'. process (exampleGlobals 1) [] ?p = Some (p', outputs') \<longrightarrow>
           voiceObjects p' 0 = voiceObjects ?p 0
           \<and> (\<forall>c < length (workletProcessorChannels ?p).
                 0 \<in> set (voices (workletProcessorChannels ?p ! c)) \<and> \<not> finished (voiceObjects ?p 0)
                 \<longrightarrow> 0 \<in> set (voices (workletProcessorChannels p' ! c)))"
    by blast
  with 2 have "voiceObjects (fst (the silentExample)) 0 = voiceObjects ?p 0
           \<and> (\<forall>c < length (workletProcessorChannels ?p).
                 0 \<in> set (voices (workletProcessorChannels ?p ! c)) \<and> \<not> finished (voiceObjects ?p 0)
                 \<longrightarrow> 0 \<in> set (voices (workletProcessorChannels (fst (the silentExample)) ! c)))"
    by blast
  with 3 have "voiceObjects (fst (the silentExample)) 0 = voiceObjects ?p 0
     \<and> 0 \<in> set (voices (workletProcessorChannels (fst (the silentExample)) ! 0))"
    by blast
  moreover have "voiceObjects ?p 0 = exampleVoice" by (simp add: exampleProcessor_def)
  moreover have "silentExample \<noteq> None" by (simp add: silentExample_eq)
  ultimately show ?thesis by simp
qed

subsection \<open>Exclusive class\<close>

lemma exclusiveRelease_same:
  "sameVoice e0 t0 v \<Longrightarrow> sameVoice e0 t0 (exclusiveRelease g controllers e v)"
  by (simp add: sameVoice_def exclusiveRelease_def computeModulators_def Let_def
      releaseVoice_def generatorTypes_defs)

lemma exclusiveRelease_match:
  "sameVoice e0 t0 v \<Longrightarrow> forcedRelease g controllers t0 (exclusiveRelease g controllers e0 v)"
proof -
  assume s: "sameVoice e0 t0 v"
  let ?w = "(releaseVoice g v)\<lparr>generators := (generators (releaseVoice g v))[releaseVolEnv := - 7200]\<rparr>"
  have e: "exclusiveRelease g controllers e0 v = computeModulators g ?w controllers"
    using s by (simp add: exclusiveRelease_def sameVoice_def Let_def)
  have l: "releaseVolEnv < length (generators (releaseVoice g v))"
    using s by (simp add: sameVoice_def releaseVoice_def Let_def generatorTypes_defs)
  have w1: "generators ?w ! releaseVolEnv = - 7200" using l by simp
  have w2: "releaseStartTime ?w = Some (max (currentTime g) (t0 + MIN_NOTE_LENGTH))"
    using s by (simp add: releaseVoice_releaseStartTime sameVoice_def)
  show ?thesis
    unfolding forcedRelease_def e
    using w1 w2 by (auto simp: computeModulators_def)
qed

lemma exclusiveRelease_other:
  "sameVoice e0 t0 v \<Longrightarrow> e \<noteq> e0 \<Longrightarrow> exclusiveRelease g controllers e v = v"
  by (simp add: sameVoice_def exclusiveRelease_def)

lemma exclusiveRelease_forced:
  "sameVoice e0 t0 v \<Longrightarrow> forcedRelease g controllers t0 v
   \<Longrightarrow> forcedRelease g controllers t0 (exclusiveRelease g controllers e v)"
  by (cases "e = e0") (simp_all add: exclusiveRelease_match exclusiveRelease_other)

lemma forEach_exclusive:
  assumes "sameVoice e0 t0 (h r)"
  shows "sameVoice e0 t0 (forEachVoice (exclusiveRelease g controllers e) cv h r)
     \<and> (forcedRelease g controllers t0 (h r)
          \<longrightarrow> forcedRelease g controllers t0 (forEachVoice (exclusiveRelease g controllers e) cv h r))
     \<and> (r \<in> set cv \<and> e = e0
          \<longrightarrow> forcedRelease g controllers t0 (forEachVoice (exclusiveRelease g controllers e) cv h r))
     \<and> (r \<notin> set cv \<or> e \<noteq> e0
          \<longrightarrow> forEachVoice (exclusiveRelease g controllers e) cv h r = h r)"
  using assms
proof (induction cv arbitrary: h)
  case Nil
  then show ?case by simp
next
  case (Cons a cv)
  let ?f = "exclusiveRelease g controllers e"
  let ?h2 = "h(a := ?f (h a))"
  define F where "F = forEachVoice ?f cv ?h2 r"
  define H2 where "H2 = ?h2 r"
  have s2: "sameVoice e0 t0 (?h2 r)"
    using Cons.prems by (cases "a = r") (simp_all add: exclusiveRelease_same)
  have ih: "sameVoice e0 t0 F" "forcedRelease g controllers t0 H2 \<Longrightarrow> forcedRelease g controllers t0 F"
    "r \<in> set cv \<Longrightarrow> e = e0 \<Longrightarrow> forcedRelease g controllers t0 F"
    "r \<notin> set cv \<or> e \<noteq> e0 \<Longrightarrow> F = H2"
    using Cons.IH [where h = ?h2, OF s2] unfolding F_def H2_def by blast+
  have f2: "forcedRelease g controllers t0 (h r) \<Longrightarrow> forcedRelease g controllers t0 H2"
    unfolding H2_def using Cons.prems by (cases "a = r") (simp_all add: exclusiveRelease_forced)
  have m2: "a = r \<Longrightarrow> e = e0 \<Longrightarrow> forcedRelease g controllers t0 H2"
    unfolding H2_def using Cons.prems by (cases "a = r") (simp_all add: exclusiveRelease_match)
  have o2: "e \<noteq> e0 \<Longrightarrow> H2 = h r"
    unfolding H2_def using Cons.prems by (cases "a = r") (simp_all add: exclusiveRelease_other)
  have n2: "a \<noteq> r \<Longrightarrow> H2 = h r" unfolding H2_def by simp
  have "sameVoice e0 t0 F
     \<and> (forcedRelease g controllers t0 (h r) \<longrightarrow> forcedRelease g controllers t0 F)
     \<and> (r \<in> set (a # cv) \<and> e = e0 \<longrightarrow> forcedRelease g controllers t0 F)
     \<and> (r \<notin> set (a # cv) \<or> e \<noteq> e0 \<longrightarrow> F = h r)"
    using ih f2 m2 o2 n2 by auto
  then show ?case unfolding F_def by simp
qed

lemma noteOnVoices_store:
  assumes "sameVoice e0 t0 (h r)"
  shows "sameVoice e0 t0 (snd (noteOnVoices g controllers cv news h) r)
     \<and> (forcedRelease g controllers t0 (h r)
          \<longrightarrow> forcedRelease g controllers t0 (snd (noteOnVoices g controllers cv news h) r))
     \<and> (r \<in> set cv \<and> e0 \<noteq> 0 \<and> (\<exists>voice \<in> set news. generators voice ! exclusiveClass = e0)
          \<longrightarrow> forcedRelease g controllers t0 (snd (noteOnVoices g controllers cv news h) r))
     \<and> (\<not> (r \<in> set cv \<and> e0 \<noteq> 0 \<and> (\<exists>voice \<in> set news. generators voice ! exclusiveClass = e0))
          \<longrightarrow> snd (noteOnVoices g controllers cv news h) r = h r)"
  using assms
proof (induction news arbitrary: h)
  case Nil
  then show ?case by simp
next
  case (Cons voice news)
  let ?e = "generators voice ! exclusiveClass"
  let ?h1 = "if ?e \<noteq> 0 then forEachVoice (exclusiveRelease g controllers ?e) cv h else h"
  define H1 where "H1 = ?h1 r"
  define F where "F = snd (noteOnVoices g controllers cv news ?h1) r"
  define M where "M \<longleftrightarrow> (\<exists>voice \<in> set news. generators voice ! exclusiveClass = e0)"
  have step: "snd (noteOnVoices g controllers cv (voice # news) h) r = F"
    unfolding F_def by (simp add: Let_def split: prod.splits)
  note fe = forEach_exclusive [where h = h and r = r and ?e0.0 = e0 and ?t0.0 = t0 and g = g
      and controllers = controllers and e = ?e and cv = cv, OF Cons.prems]
  have s1: "sameVoice e0 t0 (?h1 r)" using fe Cons.prems by simp
  have f1: "forcedRelease g controllers t0 (h r) \<Longrightarrow> forcedRelease g controllers t0 H1"
    unfolding H1_def using fe by simp
  have m1: "r \<in> set cv \<Longrightarrow> e0 \<noteq> 0 \<Longrightarrow> ?e = e0 \<Longrightarrow> forcedRelease g controllers t0 H1"
    unfolding H1_def using fe by simp
  have o1: "\<not> (r \<in> set cv \<and> e0 \<noteq> 0 \<and> ?e = e0) \<Longrightarrow> H1 = h r"
    unfolding H1_def using fe by auto
  have ih: "sameVoice e0 t0 F"
    "forcedRelease g controllers t0 H1 \<Longrightarrow> forcedRelease g controllers t0 F"
    "r \<in> set cv \<Longrightarrow> e0 \<noteq> 0 \<Longrightarrow> M \<Longrightarrow> forcedRelease g controllers t0 F"
    "\<not> (r \<in> set cv \<and> e0 \<noteq> 0 \<and> M) \<Longrightarrow> F = H1"
    using Cons.IH [where h = ?h1, OF s1] unfolding F_def H1_def M_def by blast+
  have ex: "(\<exists>v \<in> set (voice # news). generators v ! exclusiveClass = e0) \<longleftrightarrow> (?e = e0 \<or> M)"
    unfolding M_def by auto
  have "sameVoice e0 t0 F
     \<and> (forcedRelease g controllers t0 (h r) \<longrightarrow> forcedRelease g controllers t0 F)
     \<and> (r \<in> set cv \<and> e0 \<noteq> 0 \<and> (?e = e0 \<or> M) \<longrightarrow> forcedRelease g controllers t0 F)
     \<and> (\<not> (r \<in> set cv \<and> e0 \<noteq> 0 \<and> (?e = e0 \<or> M)) \<longrightarrow> F = h r)"
    using ih f1 m1 o1 by auto
  then show ?case unfolding step ex by simp
qed

lemma noteOnVoices_fst:
  "fst (noteOnVoices g controllers cv news h) =
     map (\<lambda>v. (computeModulators g v controllers)\<lparr>currentAttenuationDb := 100\<rparr>) news"
proof (induction news arbitrary: h)
  case Nil
  then show ?case by simp
next
  case (Cons voice news)
  let ?h1 = "if generators voice ! exclusiveClass \<noteq> 0
             then forEachVoice (exclusiveRelease g controllers (generators voice ! exclusiveClass)) cv h
             else h"
  obtain rest1 h2 where r: "noteOnVoices g controllers cv news ?h1 = (rest1, h2)"
    by (cases "noteOnVoices g controllers cv news ?h1")
  from Cons.IH [of ?h1] r have "rest1 =
     map (\<lambda>v. (computeModulators g v controllers)\<lparr>currentAttenuationDb := 100\<rparr>) news"
    by simp
  with r show ?case by (simp add: Let_def)
qed

lemma allocVoices_below: "r < n \<Longrightarrow> allocVoices vs n h r = h r"
  by (induction vs arbitrary: n h) simp_all




text \<open>
  The single-channel processor cuts off by the same loop, over its own list and store.
\<close>

lemma cpHandleMessage_NoteOn_objects:
  "cpVoiceObjects (cpHandleMessage g (NoteOn news) cp) =
     allocVoices
       (map (\<lambda>v. (computeModulators g v (cpMidiControllers cp))\<lparr>currentAttenuationDb := 100\<rparr>) news)
       (cpNextVoiceRef cp)
       (snd (noteOnVoices g (cpMidiControllers cp) (cpVoices cp) news (cpVoiceObjects cp)))"
proof -
  obtain news1 h1 where n: "noteOnVoices g (cpMidiControllers cp) (cpVoices cp) news (cpVoiceObjects cp)
      = (news1, h1)"
    by (cases "noteOnVoices g (cpMidiControllers cp) (cpVoices cp) news (cpVoiceObjects cp)")
  have "news1 = map (\<lambda>v. (computeModulators g v (cpMidiControllers cp))\<lparr>currentAttenuationDb := 100\<rparr>) news"
    using noteOnVoices_fst [of g "cpMidiControllers cp" "cpVoices cp" news "cpVoiceObjects cp"] n
    by simp
  with n show ?thesis by (simp add: cpHandleMessage_def Let_def)
qed

lemma cp_exclusive_class_cutoff:
  assumes r: "r \<in> set (cpVoices cp)"
    and fresh: "r < cpNextVoiceRef cp"
    and len: "length (generators (cpVoiceObjects cp r)) = 60"
  shows "(generators (cpVoiceObjects cp r) ! exclusiveClass \<noteq> 0
          \<and> (\<exists>voice \<in> set news.
                generators voice ! exclusiveClass = generators (cpVoiceObjects cp r) ! exclusiveClass)
          \<longrightarrow> forcedRelease g (cpMidiControllers cp) (startTime (cpVoiceObjects cp r))
                (cpVoiceObjects (cpHandleMessage g (NoteOn news) cp) r))
     \<and> (\<not> (generators (cpVoiceObjects cp r) ! exclusiveClass \<noteq> 0
             \<and> (\<exists>voice \<in> set news.
                   generators voice ! exclusiveClass = generators (cpVoiceObjects cp r) ! exclusiveClass))
          \<longrightarrow> cpVoiceObjects (cpHandleMessage g (NoteOn news) cp) r = cpVoiceObjects cp r)"
proof -
  let ?e0 = "generators (cpVoiceObjects cp r) ! exclusiveClass"
  let ?t0 = "startTime (cpVoiceObjects cp r)"
  let ?h1 = "snd (noteOnVoices g (cpMidiControllers cp) (cpVoices cp) news (cpVoiceObjects cp))"
  have at_r: "cpVoiceObjects (cpHandleMessage g (NoteOn news) cp) r = ?h1 r"
    using fresh by (simp add: cpHandleMessage_NoteOn_objects allocVoices_below)
  have same: "sameVoice ?e0 ?t0 (cpVoiceObjects cp r)"
    using len by (simp add: sameVoice_def)
  note st = noteOnVoices_store [where h = "cpVoiceObjects cp" and r = r and ?e0.0 = ?e0 and ?t0.0 = ?t0
      and g = g and controllers = "cpMidiControllers cp" and cv = "cpVoices cp" and news = news, OF same]
  from st r show ?thesis unfolding at_r by blast
qed



subsection \<open>Voice counts\<close>

lemma renderVoice_overattenuated:
  "samples (sampleID (sample v)) = Some d \<Longrightarrow> isInRelease v
   \<Longrightarrow> modulatedGenerators v ! initialAttenuation > 2500
   \<Longrightarrow> renderVoice g samples channel v targets = Some (v\<lparr>finished := True\<rparr>, targets)"
  by (simp add: renderVoice_def split: prod.splits)

lemma processChannels_total:
  "processChannels g samples n idx chs (h, outputs, tot) = Some (chs', h', outputs', tot')
   \<Longrightarrow> tot' = tot + sum_list (map renderedCount chs)"
proof (induction chs arbitrary: idx h outputs tot chs')
  case Nil
  then show ?case by simp
next
  case (Cons ch chs)
  show ?case
  proof (cases "length (voices ch) < 1 \<or> isMuted ch")
    case True
    with Cons.prems obtain rest1 where
      "processChannels g samples n (Suc idx) chs (h, outputs, tot) = Some (rest1, h', outputs', tot')"
      by (auto split: option.splits)
    from Cons.IH [OF this] True show ?thesis by (simp add: renderedCount_def)
  next
    case False
    with Cons.prems obtain h1 outputs1 kept rest1 where
      "processChannels g samples n (Suc idx) chs (h1, outputs1, tot + int (length (voices ch)))
         = Some (rest1, h', outputs', tot')"
      by (auto simp: Let_def split: option.splits)
    from Cons.IH [OF this] False show ?thesis by (simp add: renderedCount_def)
  qed
qed

text \<open>
  What a block does to the tracked total: it becomes the number of voices the block
  rendered, counted before the finished ones are dropped and without muted channels, and
  the voice counts are posted when that number differs from the tracked total.
\<close>

lemma process_counts_rendered_voices:
  assumes "process g outputs p = Some (p', outputs')"
  shows "totalVoicesAmount p' = sum_list (map renderedCount (workletProcessorChannels p))
     \<and> postedMessages p' =
         (if sum_list (map renderedCount (workletProcessorChannels p)) \<noteq> totalVoicesAmount p
          then postedMessages p @ [map (\<lambda>c. length (voices c)) (workletProcessorChannels p')]
          else postedMessages p)"
proof -
  from assms obtain chs h tot where
    pc: "processChannels g (workletDumpedSamplesList p) (outputsAmount p) 0
           (workletProcessorChannels p) (voiceObjects p, outputs, 0) = Some (chs, h, outputs', tot)"
    and p': "p' = (if tot \<noteq> totalVoicesAmount p
                   then updateVoicesAmount (p\<lparr>workletProcessorChannels := chs, voiceObjects := h,
                          totalVoicesAmount := tot\<rparr>)
                   else p\<lparr>workletProcessorChannels := chs, voiceObjects := h\<rparr>)"
    by (auto simp: process_def Let_def split: option.splits if_splits)
  from processChannels_total [OF pc] have "tot = sum_list (map renderedCount (workletProcessorChannels p))"
    by simp
  then show ?thesis by (simp add: p' updateVoicesAmount_def)
qed

lemma lagExample_eq:
  "lagExample = Some (fadingProcessor\<lparr>
      workletProcessorChannels := [(exampleChannel [0])\<lparr>voices := []\<rparr>],
      voiceObjects := (\<lambda>_. fadingVoice)(0 := fadingVoice\<lparr>finished := True\<rparr>)\<rparr>, [])"
proof -
  have r: "renderVoice (exampleGlobals 1) [0 \<mapsto> [0, 0, 0]] (exampleChannel [0]) fadingVoice
          (None, None, None) = Some (fadingVoice\<lparr>finished := True\<rparr>, None, None, None)"
    by (rule renderVoice_overattenuated [where d = "[0, 0, 0]"])
       (simp_all add: fadingVoice_def exampleVoice_def generatorTypes_defs)
  have c: "voices (exampleChannel [0]) = [0]" "\<not> isMuted (exampleChannel [0])"
    by (simp_all add: exampleChannel_def)
  show ?thesis
    by (simp add: lagExample_def process_def fadingProcessor_def exampleProcessor_def allVoices_def
        writeBack_def outputAt_def r c)
qed

text \<open>
  Claim C3 at a failing input.  One channel holds one voice, in release and attenuated
  beyond 100 dB, and the tracked total is 1.  The block finishes the voice and drops it
  from the list; the tracked total stays 1 while the lists hold no voice, and nothing is
  posted.
\<close>

theorem voice_count_lags_a_block:
  "totalVoicesAmount fadingProcessor = 1
   \<and> allVoices (workletProcessorChannels fadingProcessor) = [0]
   \<and> postedMessages fadingProcessor = []
   \<and> lagExample \<noteq> None
   \<and> finished (voiceObjects (fst (the lagExample)) 0)
   \<and> allVoices (workletProcessorChannels (fst (the lagExample))) = []
   \<and> totalVoicesAmount (fst (the lagExample)) = 1
   \<and> postedMessages (fst (the lagExample)) = []"
  by (simp add: lagExample_eq)
     (simp add: fadingProcessor_def exampleProcessor_def allVoices_def exampleChannel_def)

subsection \<open>Voice stealing\<close>

lemma indexOf_nonneg: "r \<in> set xs \<Longrightarrow> 0 \<le> indexOf xs r"
  by (induction xs) (auto simp: Let_def)

lemma splice1_Cons: "0 \<le> i \<Longrightarrow> splice1 (i + 1) (y # ys) = y # splice1 i ys"
  by (simp add: splice1_def Let_def nat_add_distrib min_def)

lemma splice1_indexOf: "r \<in> set xs \<Longrightarrow> splice1 (indexOf xs r) xs = remove1 r xs"
proof (induction xs)
  case Nil
  then show ?case by simp
next
  case (Cons y ys)
  show ?case
  proof (cases "y = r")
    case True
    then show ?thesis by (simp add: splice1_def)
  next
    case False
    with Cons.prems have m: "r \<in> set ys" by simp
    from indexOf_nonneg [OF m] have i: "0 \<le> indexOf ys r" .
    with False have "indexOf (y # ys) r = indexOf ys r + 1" by (simp add: Let_def)
    with False Cons.IH [OF m] i show ?thesis by (simp add: splice1_Cons)
  qed
qed

lemma set_allVoices: "set (allVoices chs) = (\<Union>ch \<in> set chs. set (voices ch))"
  by (simp add: allVoices_def)

lemma allVoices_removeVoices: "allVoices (removeVoices K chs) = filter (\<lambda>x. x \<notin> K) (allVoices chs)"
  by (simp add: allVoices_def removeVoices_def filter_concat comp_def)

lemma removeVoices_removeVoices:
  "removeVoices K (removeVoices L chs) = removeVoices (L \<union> K) chs"
  by (simp add: removeVoices_def comp_def conj_commute)

lemma length_removeVoices: "length (removeVoices K chs) = length chs"
  by (simp add: removeVoices_def)

lemma nth_removeVoices:
  "c < length chs \<Longrightarrow> removeVoices K chs ! c = (chs ! c)\<lparr>voices := filter (\<lambda>x. x \<notin> K) (voices (chs ! c))\<rparr>"
  by (simp add: removeVoices_def)

lemma consistent_removeVoices:
  "channelsConsistent h chs \<Longrightarrow> channelsConsistent h (removeVoices K chs)"
  by (simp add: channelsConsistent_def length_removeVoices nth_removeVoices)

lemma kill_one:
  assumes cons: "channelsConsistent h chs"
    and dist: "\<forall>c < length chs. distinct (voices (chs ! c))"
    and mem: "r \<in> set (allVoices chs)"
  shows "channelNumber (h r) < length chs
     \<and> chs[channelNumber (h r) := (chs ! channelNumber (h r))\<lparr>voices :=
            splice1 (indexOf (voices (chs ! channelNumber (h r))) r) (voices (chs ! channelNumber (h r)))\<rparr>]
         = removeVoices {r} chs"
proof -
  from mem obtain ch where "ch \<in> set chs" "r \<in> set (voices ch)"
    by (auto simp: set_allVoices)
  then obtain c where c: "c < length chs" "r \<in> set (voices (chs ! c))"
    by (metis in_set_conv_nth)
  with cons have cn: "channelNumber (h r) = c" by (simp add: channelsConsistent_def)
  have other: "\<And>j. j < length chs \<Longrightarrow> j \<noteq> c \<Longrightarrow> r \<notin> set (voices (chs ! j))"
    using cons cn by (auto simp: channelsConsistent_def)
  have here: "splice1 (indexOf (voices (chs ! c)) r) (voices (chs ! c))
                = filter (\<lambda>x. x \<notin> {r}) (voices (chs ! c))"
    using c dist by (simp add: splice1_indexOf distinct_remove1_removeAll removeAll_filter_not_eq
        eq_commute)
  have "chs[c := (chs ! c)\<lparr>voices := splice1 (indexOf (voices (chs ! c)) r) (voices (chs ! c))\<rparr>]
         = removeVoices {r} chs"
  proof (rule nth_equalityI)
    show "length (chs[c := (chs ! c)\<lparr>voices := splice1 (indexOf (voices (chs ! c)) r) (voices (chs ! c))\<rparr>])
            = length (removeVoices {r} chs)"
      by (simp add: length_removeVoices)
  next
    fix j
    assume "j < length (chs[c := (chs ! c)\<lparr>voices := splice1 (indexOf (voices (chs ! c)) r) (voices (chs ! c))\<rparr>])"
    then have j: "j < length chs" by simp
    show "chs[c := (chs ! c)\<lparr>voices := splice1 (indexOf (voices (chs ! c)) r) (voices (chs ! c))\<rparr>] ! j
            = removeVoices {r} chs ! j"
    proof (cases "j = c")
      case True
      with j here show ?thesis by (simp add: nth_removeVoices)
    next
      case False
      from other [OF j False] have "filter (\<lambda>x. x \<notin> {r}) (voices (chs ! j)) = voices (chs ! j)"
        by (auto simp: filter_id_conv)
      with j False show ?thesis by (simp add: nth_removeVoices)
    qed
  qed
  with c cn show ?thesis by simp
qed

lemma killVoices_removes:
  assumes "channelsConsistent h chs"
    and "\<forall>c < length chs. distinct (voices (chs ! c))"
    and "set rs \<subseteq> set (allVoices chs)"
    and "distinct rs"
  shows "killVoices h rs (chs, cnt) = Some (removeVoices (set rs) chs, cnt - int (length rs))"
  using assms
proof (induction rs arbitrary: chs cnt)
  case Nil
  have "removeVoices {} chs = chs" by (simp add: removeVoices_def)
  then show ?case by simp
next
  case (Cons r rs)
  from Cons.prems(3) have mem: "r \<in> set (allVoices chs)" by simp
  note k = kill_one [OF Cons.prems(1,2) mem]
  let ?chs1 = "removeVoices {r} chs"
  have 1: "channelsConsistent h ?chs1" using Cons.prems(1) by (rule consistent_removeVoices)
  have 2: "\<forall>c < length ?chs1. distinct (voices (?chs1 ! c))"
    using Cons.prems(2) by (simp add: length_removeVoices nth_removeVoices)
  have 3: "set rs \<subseteq> set (allVoices ?chs1)"
    using Cons.prems(3,4) by (auto simp: allVoices_removeVoices)
  have 4: "distinct rs" using Cons.prems(4) by simp
  have "killVoices h (r # rs) (chs, cnt) = killVoices h rs (?chs1, cnt - 1)"
    using k by (simp add: Let_def)
  also have "\<dots> = Some (removeVoices (set rs) ?chs1, cnt - 1 - int (length rs))"
    by (rule Cons.IH [OF 1 2 3 4])
  also have "\<dots> = Some (removeVoices (set (r # rs)) chs, cnt - int (length (r # rs)))"
    by (simp add: removeVoices_removeVoices)
  finally show ?case .
qed

lemma distinct_allVoices_channel:
  "distinct (allVoices chs) \<Longrightarrow> c < length chs \<Longrightarrow> distinct (voices (chs ! c))"
  by (simp add: allVoices_def distinct_concat_iff)

lemma length_filter_killed:
  assumes "distinct xs" "distinct ks" "set ks \<subseteq> set xs"
  shows "length (filter (\<lambda>x. x \<notin> set ks) xs) = length xs - length ks"
proof -
  have "length (filter (\<lambda>x. x \<in> set ks) xs) = card ({x. x \<in> set ks} \<inter> set xs)"
    using assms(1) by (rule distinct_length_filter)
  also have "{x. x \<in> set ks} \<inter> set xs = set ks" using assms(3) by auto
  also have "card (set ks) = length ks" using assms(2) by (rule distinct_card)
  finally have "length (filter (\<lambda>x. x \<in> set ks) xs) = length ks" .
  moreover have "length (filter (\<lambda>x. x \<in> set ks) xs) + length (filter (\<lambda>x. \<not> x \<in> set ks) xs) = length xs"
    by (rule sum_length_filter_compl)
  ultimately show ?thesis by simp
qed

lemma take_sorted_le_rest:
  assumes "a \<in> set (take n (sort_key f xs))" "b \<in> set xs" "b \<notin> set (take n (sort_key f xs))"
  shows "f a \<le> f b"
proof -
  let ?s = "sort_key f xs"
  have "set ?s = set (take n ?s) \<union> set (drop n ?s)"
    by (metis append_take_drop_id set_append)
  moreover have "b \<in> set ?s" using assms(2) by simp
  ultimately have b: "b \<in> set (drop n ?s)" using assms(3) by blast
  have "sorted (map f (take n ?s @ drop n ?s))" by simp
  then have "\<forall>x \<in> set (map f (take n ?s)). \<forall>y \<in> set (map f (drop n ?s)). x \<le> y"
    by (simp only: map_append sorted_append) blast
  with assms(1) b show ?thesis by auto
qed

lemma voiceKilling_removes:
  assumes cons: "channelsConsistent (voiceObjects p) (workletProcessorChannels p)"
    and dist: "distinct (allVoices (workletProcessorChannels p))"
  shows "voiceKilling amount p =
     Some (updateVoicesAmount (p\<lparr>
        workletProcessorChannels := removeVoices (set (killedVoices amount p)) (workletProcessorChannels p),
        totalVoicesAmount := totalVoicesAmount p - int (length (killedVoices amount p))\<rparr>))"
proof -
  let ?chs = "workletProcessorChannels p"
  let ?s = "sort_key (\<lambda>r. velocity (voiceObjects p r)) (allVoices ?chs)"
  let ?a1 = "if int (length ?s) < amount then int (length ?s) else amount"
  have t: "take (nat ?a1) ?s = killedVoices amount p"
    by (simp add: killedVoices_def)
  have d: "\<forall>c < length ?chs. distinct (voices (?chs ! c))"
    using dist by (simp add: distinct_allVoices_channel)
  have sub: "set (killedVoices amount p) \<subseteq> set (allVoices ?chs)"
    unfolding killedVoices_def using set_take_subset [of "nat amount" ?s] by simp
  have dk: "distinct (killedVoices amount p)"
    unfolding killedVoices_def using dist by simp
  have "killVoices (voiceObjects p) (killedVoices amount p) (?chs, totalVoicesAmount p)
          = Some (removeVoices (set (killedVoices amount p)) ?chs,
                  totalVoicesAmount p - int (length (killedVoices amount p)))"
    by (rule killVoices_removes [OF cons d sub dk])
  then show ?thesis
    unfolding voiceKilling_def Let_def t by simp
qed

lemma handleMessage_KillNotes:
  "c < length (workletProcessorChannels p) \<Longrightarrow>
   handleMessage g \<lparr>messageChannel = c, messageData = KillNotes n\<rparr> p = voiceKilling n p"
  by (simp add: handleMessage_def Let_def)

text \<open>
  Claim C1, amended.  In the multi-channel processor, where every listed voice names its
  own channel and no voice is listed twice, a \<open>killNotes(n)\<close> event removes exactly
  \<open>min(n, number of live voices)\<close> voices from the channels' lists: with all live voices
  sorted ascending by velocity (stably), the first \<open>n\<close> are removed, so no removed voice
  has a higher velocity than a remaining one; every other voice stays in its channel's
  list, in order; no voice object changes; the tracked total drops by the number removed
  and the voice counts are posted.  The single-channel processor instead drops the first
  \<open>n\<close> voices of its list, whatever their velocity.
\<close>

theorem voice_stealing:
  assumes c: "c < length (workletProcessorChannels p)"
    and cons: "channelsConsistent (voiceObjects p) (workletProcessorChannels p)"
    and dist: "distinct (allVoices (workletProcessorChannels p))"
  shows "(\<exists>p'. handleMessage g \<lparr>messageChannel = c, messageData = KillNotes n\<rparr> p = Some p'
          \<and> length (killedVoices n p) = min (nat n) (length (allVoices (workletProcessorChannels p)))
          \<and> length (workletProcessorChannels p') = length (workletProcessorChannels p)
          \<and> (\<forall>j < length (workletProcessorChannels p).
                workletProcessorChannels p' ! j =
                  (workletProcessorChannels p ! j)\<lparr>voices :=
                     filter (\<lambda>r. r \<notin> set (killedVoices n p)) (voices (workletProcessorChannels p ! j))\<rparr>)
          \<and> length (allVoices (workletProcessorChannels p')) =
               length (allVoices (workletProcessorChannels p))
                 - min (nat n) (length (allVoices (workletProcessorChannels p)))
          \<and> (\<forall>a \<in> set (killedVoices n p). \<forall>b \<in> set (allVoices (workletProcessorChannels p')).
                velocity (voiceObjects p a) \<le> velocity (voiceObjects p b))
          \<and> voiceObjects p' = voiceObjects p
          \<and> totalVoicesAmount p' =
               totalVoicesAmount p - int (min (nat n) (length (allVoices (workletProcessorChannels p))))
          \<and> postedMessages p' =
               postedMessages p @ [map (\<lambda>ch. length (voices ch)) (workletProcessorChannels p')])
     \<and> cpVoices (cpHandleMessage g (KillNotes n) cp) = drop (nat n) (cpVoices cp)
     \<and> cpVoiceObjects (cpHandleMessage g (KillNotes n) cp) = cpVoiceObjects cp"
proof -
  let ?chs = "workletProcessorChannels p"
  let ?k = "killedVoices n p"
  let ?p' = "updateVoicesAmount (p\<lparr>workletProcessorChannels := removeVoices (set ?k) ?chs,
        totalVoicesAmount := totalVoicesAmount p - int (length ?k)\<rparr>)"
  have hm: "handleMessage g \<lparr>messageChannel = c, messageData = KillNotes n\<rparr> p = Some ?p'"
    by (simp add: handleMessage_KillNotes [OF c] voiceKilling_removes [OF cons dist])
  have chs': "workletProcessorChannels ?p' = removeVoices (set ?k) ?chs"
    by (simp add: updateVoicesAmount_def)
  have lk: "length ?k = min (nat n) (length (allVoices ?chs))"
    by (simp add: killedVoices_def min.commute)
  have sub: "set ?k \<subseteq> set (allVoices ?chs)"
    unfolding killedVoices_def
    using set_take_subset [of "nat n" "sort_key (\<lambda>r. velocity (voiceObjects p r)) (allVoices ?chs)"]
    by simp
  have dk: "distinct ?k" unfolding killedVoices_def using dist by simp
  have 1: "length (workletProcessorChannels ?p') = length ?chs"
    by (simp add: chs' length_removeVoices)
  have 2: "\<forall>j < length ?chs. workletProcessorChannels ?p' ! j =
                  (?chs ! j)\<lparr>voices := filter (\<lambda>r. r \<notin> set ?k) (voices (?chs ! j))\<rparr>"
    by (simp add: chs' nth_removeVoices)
  have 3: "length (allVoices (workletProcessorChannels ?p')) =
               length (allVoices ?chs) - min (nat n) (length (allVoices ?chs))"
    by (subst chs') (simp add: allVoices_removeVoices length_filter_killed [OF dist dk sub] lk)
  have 4: "\<forall>a \<in> set ?k. \<forall>b \<in> set (allVoices (workletProcessorChannels ?p')).
                velocity (voiceObjects p a) \<le> velocity (voiceObjects p b)"
  proof (intro ballI)
    fix a b
    assume a: "a \<in> set ?k" and b: "b \<in> set (allVoices (workletProcessorChannels ?p'))"
    from b have "b \<in> set (allVoices ?chs)" "b \<notin> set ?k"
      by (simp_all add: chs' allVoices_removeVoices)
    with a show "velocity (voiceObjects p a) \<le> velocity (voiceObjects p b)"
      unfolding killedVoices_def
      by (rule_tac take_sorted_le_rest [where f = "\<lambda>r. velocity (voiceObjects p r)"])
  qed
  have 5: "voiceObjects ?p' = voiceObjects p" by (simp add: updateVoicesAmount_def)
  have 6: "totalVoicesAmount ?p' = totalVoicesAmount p - int (min (nat n) (length (allVoices ?chs)))"
    by (simp add: updateVoicesAmount_def lk)
  have 7: "postedMessages ?p' =
               postedMessages p @ [map (\<lambda>ch. length (voices ch)) (workletProcessorChannels ?p')]"
    by (simp add: updateVoicesAmount_def)
  have 8: "cpVoices (cpHandleMessage g (KillNotes n) cp) = drop (nat n) (cpVoices cp)"
    "cpVoiceObjects (cpHandleMessage g (KillNotes n) cp) = cpVoiceObjects cp"
    by (simp_all add: cpHandleMessage_def Let_def)
  from hm lk 1 2 3 4 5 6 7 8 show ?thesis by blast
qed

lemma stealing_killed: "killedVoices 2 stealingProcessor = [1, 2]"
  by (simp add: killedVoices_def stealingProcessor_def exampleProcessor_def allVoices_def
      exampleChannel_def stealingVoices_def exampleVoice_def)

text \<open>
  Velocities 100 and 10 on channel 0 and 50 on channel 1: \<open>killNotes(2)\<close> leaves the
  voice of velocity 100.
\<close>

theorem voice_stealing_witness:
  "stealingExample \<noteq> None
   \<and> voices (workletProcessorChannels (the stealingExample) ! 0) = [0]
   \<and> voices (workletProcessorChannels (the stealingExample) ! 1) = []"
proof -
  have c: "0 < length (workletProcessorChannels stealingProcessor)"
    by (simp add: stealingProcessor_def exampleProcessor_def)
  have cons: "channelsConsistent (voiceObjects stealingProcessor) (workletProcessorChannels stealingProcessor)"
    by (simp add: channelsConsistent_def stealingProcessor_def exampleProcessor_def exampleChannel_def
        stealingVoices_def exampleVoice_def less_Suc_eq)
  have dist: "distinct (allVoices (workletProcessorChannels stealingProcessor))"
    by (simp add: stealingProcessor_def exampleProcessor_def exampleChannel_def allVoices_def)
  from voice_stealing [OF c cons dist, of "exampleGlobals 1" 2]
  obtain p' where p': "handleMessage (exampleGlobals 1)
        \<lparr>messageChannel = 0, messageData = KillNotes 2\<rparr> stealingProcessor = Some p'"
    and v: "\<forall>j < length (workletProcessorChannels stealingProcessor).
                workletProcessorChannels p' ! j =
                  (workletProcessorChannels stealingProcessor ! j)\<lparr>voices :=
                     filter (\<lambda>r. r \<notin> set (killedVoices 2 stealingProcessor))
                       (voices (workletProcessorChannels stealingProcessor ! j))\<rparr>"
    by blast
  from p' have e: "stealingExample = Some p'" by (simp add: stealingExample_def)
  have l: "length (workletProcessorChannels stealingProcessor) = 2"
    "voices (workletProcessorChannels stealingProcessor ! 0) = [0, 1]"
    "voices (workletProcessorChannels stealingProcessor ! 1) = [2]"
    by (simp_all add: stealingProcessor_def exampleProcessor_def exampleChannel_def)
  from v l have "workletProcessorChannels p' ! 0 =
      (workletProcessorChannels stealingProcessor ! 0)\<lparr>voices := [0]\<rparr>"
    "workletProcessorChannels p' ! 1 =
      (workletProcessorChannels stealingProcessor ! 1)\<lparr>voices := []\<rparr>"
    by (simp_all add: stealing_killed)
  then have "voices (workletProcessorChannels p' ! 0) = [0]"
    "voices (workletProcessorChannels p' ! 1) = []"
    by simp_all
  then show ?thesis unfolding e by simp
qed

text \<open>
  Claim C1 as stated fails in the single-channel processor: with velocities 100 and 10
  in its list, \<open>killNotes(1)\<close> removes the first voice, of velocity 100.
\<close>

theorem killNotes_drops_earliest_voice:
  "cpVoices earliestVoices = [0, 1]
   \<and> velocity (cpVoiceObjects earliestVoices 0) = 100
   \<and> velocity (cpVoiceObjects earliestVoices 1) = 10
   \<and> cpVoices (cpHandleMessage (exampleGlobals 1) (KillNotes 1) earliestVoices) = [1]"
  by (simp add: cpHandleMessage_def earliestVoices_def exampleVoice_def Let_def)

end
